theory Spec2Isabelle
  imports Complex_Main
begin

section \<open>The queue worker of run\_cellphonedb\_rabbitmq.py\<close>

text \<open>
  The script polls a job queue, hands each message to one of two handlers
  (\<open>process_plot\<close> or \<open>process_method\<close>), and publishes one response per handled
  message on a result queue. Everything the script calls outside its own file (the JSON
  decoder, the object store, the analysis launchers, the R plotters, the broker) is a
  field of the record \<open>env\<close>; every such call may raise, which is the \<open>Inl\<close> branch of
  its result. The effects of a run are collected, in order, in a list of events.

  Boundaries of the model, chosen once and used throughout:
  \<^item> the broker calls \<open>create_rabbit_connection\<close>, \<open>channel\<close>, \<open>basic_qos\<close>,
    \<open>basic_get\<close> and \<open>basic_publish\<close> return normally; whether a connection reports
    closed is the environment's choice;
  \<^item> temporary files and directories are created and removed without error;
  \<^item> logging and \<open>traceback.print_exc\<close> have no effect that is modelled;
  \<^item> a finite Python float is the real number it denotes; the infinities and NaN are
    values of their own;
  \<^item> only exceptions derived from \<open>Exception\<close> are raised.
\<close>

subsection \<open>JSON values and the Python operations applied to them\<close>

datatype pyfloat = Finite real | PosInf | NegInf | NaN

datatype json =
    JNull
  | JBool bool
  | JInt int
  | JFloat pyfloat
  | JStr string
  | JArr "json list"
  | JObj "(string \<times> json) list"

datatype exn_class =
    ReadFileException
  | ParseMetaException
  | ParseCountsException
  | ThresholdValueException
  | AllCountsFilteredException
  | EmptyResultException
  | PlotException
  | Other string

text \<open>
  An exception object: its class, the text \<open>str(e)\<close> and the two optional attributes
  the worker looks for with \<open>hasattr\<close>.
\<close>

record exn =
  exn_class :: exn_class
  exn_str :: string
  description :: "string option"
  hint :: "string option"

definition builtin_error :: "string \<Rightarrow> string \<Rightarrow> exn" where
  "builtin_error name txt =
     \<lparr>exn_class = Other name, exn_str = txt, description = None, hint = None\<rparr>"

type_synonym dataframe = "string list list"

record subsampler =
  log :: bool
  num_pc :: int
  num_cells :: "int option"

record method_args =
  threshold :: pyfloat
  result_precision :: int
  subsampler :: "subsampler option"

record statistical_args = method_args +
  iterations :: int
  debug_seed :: int
  threads :: int
  pvalue :: pyfloat

datatype blob = Csv dataframe | Image string

text \<open>
  The response dictionaries: \<open>{'job_id', 'files', 'success': True}\<close> and
  \<open>{'job_id', 'success': False, 'error': {'id', 'message'}}\<close>.
\<close>

datatype result =
    Success json "(string \<times> string) list"
  | Failure json string string

datatype event =
    BasicGet "string option"
  | Connected nat
  | Statistical dataframe dataframe statistical_args
  | Method dataframe dataframe method_args
  | S3Put string blob
  | Published nat result

record env =
  jobs_queue_name :: string
  json_loads :: "string \<Rightarrow> exn + json"
  py_repr :: "json \<Rightarrow> string"
  int_of_str :: "string \<Rightarrow> int option"
  float_of_str :: "string \<Rightarrow> pyfloat option"
  plot_exception :: "string \<Rightarrow> exn"
  basic_get :: "nat \<Rightarrow> string option"
  is_closed :: "nat \<Rightarrow> nat \<Rightarrow> bool"
  s3_get_object :: "nat \<Rightarrow> json \<Rightarrow> exn + string"
  read_data_from_s3_object :: "nat \<Rightarrow> string \<Rightarrow> json \<Rightarrow> bool \<Rightarrow> exn + dataframe"
  s3_put_object :: "nat \<Rightarrow> string \<Rightarrow> blob \<Rightarrow> exn option"
  cpdb_statistical_analysis_launcher ::
    "nat \<Rightarrow> dataframe \<Rightarrow> dataframe \<Rightarrow> statistical_args
       \<Rightarrow> exn + (dataframe \<times> dataframe \<times> dataframe \<times> dataframe)"
  cpdb_method_analysis_launcher ::
    "nat \<Rightarrow> dataframe \<Rightarrow> dataframe \<Rightarrow> method_args
       \<Rightarrow> exn + (dataframe \<times> dataframe \<times> dataframe)"
  dot_plot :: "nat \<Rightarrow> json \<times> string \<Rightarrow> json \<times> string \<Rightarrow> string \<Rightarrow> string \<Rightarrow> string
       \<Rightarrow> exn + string option"
  heatmaps_plot :: "nat \<Rightarrow> string \<Rightarrow> json \<times> string \<Rightarrow> string \<Rightarrow> string
       \<Rightarrow> exn + (string option \<times> string option)"

text \<open>
  The fields of \<open>env\<close>, with the first argument of the external services the index of
  the loop iteration in which the call is made:
  \<^item> \<open>json_loads b\<close> is \<open>json.loads(b.decode('utf-8'))\<close>;
  \<open>py_repr\<close> is \<open>str\<close> on numbers, lists and dictionaries; \<open>int_of_str\<close> and
  \<open>float_of_str\<close> are \<open>int\<close> and \<open>float\<close> on strings;
  \<^item> \<open>plot_exception msg\<close> is the object that \<open>PlotException(msg)\<close> constructs: the
    class is imported from \<open>cellphonedb.src.exceptions\<close> and its constructor is not
    part of this file, so the text \<open>str(e)\<close>, the description and the hint of the
    object are the environment's;
  \<^item> \<open>basic_get t\<close> is the body of the message the \<open>t\<close>-th poll returns, \<open>None\<close>
    for the triple \<open>(None, None, None)\<close> of an empty queue;
  \<^item> \<open>is_closed t c\<close> is what connection \<open>c\<close> answers to \<open>is_closed\<close>;
  \<^item> \<open>dot_plot\<close> and \<open>heatmaps_plot\<close> receive the staged inputs (with the storage
    key where the temporary file's suffix is taken from it) and the output names, and
    answer with the content of each output file that exists afterwards.
\<close>

text \<open>\<open>raise PlotException(msg)\<close>: whatever the constructor stores, the class is fixed.\<close>

definition new_PlotException :: "env \<Rightarrow> string \<Rightarrow> exn" where
  "new_PlotException E msg = (plot_exception E msg)\<lparr>exn_class := PlotException\<rparr>"

text \<open>Truth value testing, as in \<open>if x:\<close> and \<open>bool(x)\<close>.\<close>

fun truthy :: "json \<Rightarrow> bool" where
  "truthy JNull = False"
| "truthy (JBool b) = b"
| "truthy (JInt i) = (i \<noteq> 0)"
| "truthy (JFloat f) = (f \<noteq> Finite 0)"
| "truthy (JStr s) = (s \<noteq> [])"
| "truthy (JArr xs) = (xs \<noteq> [])"
| "truthy (JObj kvs) = (kvs \<noteq> [])"

text \<open>\<open>metadata[key]\<close>: KeyError on a dictionary without the key, TypeError elsewhere.\<close>

fun subscript :: "json \<Rightarrow> string \<Rightarrow> exn + json" where
  "subscript (JObj kvs) k =
     (case map_of kvs k of
        None \<Rightarrow> Inl (builtin_error ''KeyError'' ([CHR 0x27] @ k @ [CHR 0x27]))
      | Some v \<Rightarrow> Inr v)"
| "subscript _ k = Inl (builtin_error ''TypeError'' [])"

text \<open>\<open>metadata.get(key, default)\<close>.\<close>

fun py_get :: "json \<Rightarrow> string \<Rightarrow> json \<Rightarrow> exn + json" where
  "py_get (JObj kvs) k d = Inr (case map_of kvs k of None \<Rightarrow> d | Some v \<Rightarrow> v)"
| "py_get _ k d = Inl (builtin_error ''AttributeError'' [])"

text \<open>
  \<open>int(v)\<close>: a float is truncated towards zero, an infinity raises OverflowError and
  NaN raises ValueError.
\<close>

fun py_int :: "env \<Rightarrow> json \<Rightarrow> exn + int" where
  "py_int E (JInt i) = Inr i"
| "py_int E (JBool b) = Inr (if b then 1 else 0)"
| "py_int E (JFloat (Finite r)) = Inr (if r < 0 then - \<lfloor>- r\<rfloor> else \<lfloor>r\<rfloor>)"
| "py_int E (JFloat NaN) = Inl (builtin_error ''ValueError'' [])"
| "py_int E (JFloat f) = Inl (builtin_error ''OverflowError'' [])"
| "py_int E (JStr s) =
     (case int_of_str E s of
        None \<Rightarrow> Inl (builtin_error ''ValueError'' [])
      | Some i \<Rightarrow> Inr i)"
| "py_int E _ = Inl (builtin_error ''TypeError'' [])"

text \<open>The number of binary digits of a natural number.\<close>

fun bit_length :: "nat \<Rightarrow> nat" where
  "bit_length n = (if n = 0 then 0 else Suc (bit_length (n div 2)))"

declare bit_length.simps [simp del]

text \<open>
  Rounding to 53 significant binary digits, a tie going to the even mantissa.
\<close>

definition round53 :: "nat \<Rightarrow> nat" where
  "round53 a =
     (let e = bit_length a - 53;
          q = a div 2 ^ e;
          r = a mod 2 ^ e
      in (if 2 ^ e < 2 * r \<or> (2 * r = 2 ^ e \<and> odd q) then Suc q else q) * 2 ^ e)"

text \<open>
  The integer that \<open>float(i)\<close> denotes. Its magnitude reaches \<open>2 ^ 1024\<close> exactly
  when \<open>i\<close> is beyond the largest double.
\<close>

definition double_of_int :: "int \<Rightarrow> int" where
  "double_of_int i = (if i < 0 then - int (round53 (nat (- i))) else int (round53 (nat i)))"

text \<open>
  \<open>float(v)\<close>: an integer too large for a double raises OverflowError.
\<close>

fun py_float :: "env \<Rightarrow> json \<Rightarrow> exn + pyfloat" where
  "py_float E (JInt i) =
     (if 2 ^ 1024 \<le> \<bar>double_of_int i\<bar>
      then Inl (builtin_error ''OverflowError'' ''int too large to convert to float'')
      else Inr (Finite (of_int (double_of_int i))))"
| "py_float E (JBool b) = Inr (Finite (if b then 1 else 0))"
| "py_float E (JFloat f) = Inr f"
| "py_float E (JStr s) =
     (case float_of_str E s of
        None \<Rightarrow> Inl (builtin_error ''ValueError'' [])
      | Some r \<Rightarrow> Inr r)"
| "py_float E _ = Inl (builtin_error ''TypeError'' [])"

text \<open>\<open>'{}'.format(v)\<close>, that is \<open>str(v)\<close>.\<close>

fun py_str :: "env \<Rightarrow> json \<Rightarrow> string" where
  "py_str E (JStr s) = s"
| "py_str E JNull = ''None''"
| "py_str E (JBool b) = (if b then ''True'' else ''False'')"
| "py_str E v = py_repr E v"

text \<open>\<open>os.path.splitext(v)\<close> accepts a string and raises TypeError otherwise.\<close>

fun splitext :: "json \<Rightarrow> exn + unit" where
  "splitext (JStr s) = Inr ()"
| "splitext _ = Inl (builtin_error ''TypeError'' [])"

subsection \<open>Computations that emit events and may raise\<close>

type_synonym 'a io = "(exn + 'a) \<times> event list"

definition io_bind :: "'a io \<Rightarrow> ('a \<Rightarrow> 'b io) \<Rightarrow> 'b io" where
  "io_bind m f =
     (case m of
        (Inl e, evs) \<Rightarrow> (Inl e, evs)
      | (Inr x, evs) \<Rightarrow> (case f x of (r, evs') \<Rightarrow> (r, evs @ evs')))"

definition io_pure :: "exn + 'a \<Rightarrow> 'a io" where
  "io_pure r = (r, [])"

definition io_emit :: "event \<Rightarrow> unit io" where
  "io_emit ev = (Inr (), [ev])"

subsection \<open>Object store\<close>

definition read_data_from_s3 :: "env \<Rightarrow> nat \<Rightarrow> json \<Rightarrow> bool \<Rightarrow> exn + dataframe" where
  "read_data_from_s3 E t filename index_column_first =
     (case s3_get_object E t filename of
        Inl e \<Rightarrow> Inl e
      | Inr s3_object \<Rightarrow> read_data_from_s3_object E t s3_object filename index_column_first)"

definition write_data_in_s3 :: "env \<Rightarrow> nat \<Rightarrow> dataframe \<Rightarrow> string \<Rightarrow> unit io" where
  "write_data_in_s3 E t data filename =
     (case s3_put_object E t filename (Csv data) of
        Some e \<Rightarrow> (Inl e, [])
      | None \<Rightarrow> io_emit (S3Put filename (Csv data)))"

definition write_image_to_s3 :: "env \<Rightarrow> nat \<Rightarrow> string \<Rightarrow> string \<Rightarrow> unit io" where
  "write_image_to_s3 E t content filename =
     (case s3_put_object E t filename (Image content) of
        Some e \<Rightarrow> (Inl e, [])
      | None \<Rightarrow> io_emit (S3Put filename (Image content)))"

definition from_s3_to_temp :: "env \<Rightarrow> nat \<Rightarrow> json \<Rightarrow> string io" where
  "from_s3_to_temp E t key = io_pure (s3_get_object E t key)"

subsection \<open>Plot handlers\<close>

definition dot_plot_results ::
  "env \<Rightarrow> nat \<Rightarrow> json \<Rightarrow> json \<Rightarrow> json \<Rightarrow> json \<Rightarrow> json \<Rightarrow> result io" where
  "dot_plot_results E t means pvalues rows columns job_id =
     io_bind (io_pure (splitext means)) (\<lambda>_.
     io_bind (io_pure (splitext pvalues)) (\<lambda>_.
     io_bind (from_s3_to_temp E t means) (\<lambda>means_file.
     io_bind (from_s3_to_temp E t pvalues) (\<lambda>pvalues_file.
     io_bind (from_s3_to_temp E t rows) (\<lambda>rows_file.
     io_bind (from_s3_to_temp E t columns) (\<lambda>columns_file.
       let output_name = ''plot__'' @ py_str E job_id @ ''.png'' in
       io_bind (io_pure (dot_plot E t (means, means_file) (pvalues, pvalues_file)
                           output_name rows_file columns_file)) (\<lambda>output_file.
         case output_file of
           None \<Rightarrow>
             io_pure (Inl (new_PlotException E
               ''Could not generate output file for plot of type dot_plot''))
         | Some content \<Rightarrow>
             let response = Success job_id [(''plot'', output_name)] in
             io_bind (write_image_to_s3 E t content output_name) (\<lambda>_.
             io_pure (Inr response)))))))))"

definition heatmaps_plot_results :: "env \<Rightarrow> nat \<Rightarrow> json \<Rightarrow> json \<Rightarrow> json \<Rightarrow> result io" where
  "heatmaps_plot_results E t meta pvalues job_id =
     io_bind (io_pure (splitext pvalues)) (\<lambda>_.
     io_bind (from_s3_to_temp E t pvalues) (\<lambda>pvalues_file.
     io_bind (from_s3_to_temp E t meta) (\<lambda>meta_file.
       let count_name = ''plot_count__'' @ py_str E job_id @ ''.png'';
           count_log_name = ''plot_count_log__'' @ py_str E job_id @ ''.png'' in
       io_bind (io_pure (heatmaps_plot E t meta_file (pvalues, pvalues_file)
                           count_name count_log_name)) (\<lambda>(output_count_file, output_count_log_file).
         case (output_count_file, output_count_log_file) of
           (Some count_content, Some count_log_content) \<Rightarrow>
             let response = Success job_id
                   [(''count_plot'', count_name), (''count_log_plot'', count_log_name)] in
             io_bind (write_image_to_s3 E t count_content count_name) (\<lambda>_.
             io_bind (write_image_to_s3 E t count_log_content count_log_name) (\<lambda>_.
             io_pure (Inr response)))
         | _ \<Rightarrow>
             io_pure (Inl (new_PlotException E
               ''Could not generate output file for plot of type dot_plot''))))))"

definition process_plot :: "env \<Rightarrow> nat \<Rightarrow> string \<Rightarrow> result io" where
  "process_plot E t body =
     io_bind (io_pure (json_loads E body)) (\<lambda>metadata.
     io_bind (io_pure (subscript metadata ''job_id'')) (\<lambda>job_id.
     io_bind (io_pure (py_get metadata ''type'' JNull)) (\<lambda>plot_type.
       if plot_type = JStr ''dot_plot'' then
         io_bind (io_pure (py_get metadata ''file_means'' JNull)) (\<lambda>file_means.
         io_bind (io_pure (py_get metadata ''file_pvalues'' JNull)) (\<lambda>file_pvalues.
         io_bind (io_pure (py_get metadata ''file_rows'' JNull)) (\<lambda>file_rows.
         io_bind (io_pure (py_get metadata ''file_columns'' JNull)) (\<lambda>file_columns.
           dot_plot_results E t file_means file_pvalues file_rows file_columns job_id))))
       else if plot_type = JStr ''heatmaps_plot'' then
         io_bind (io_pure (py_get metadata ''file_meta'' JNull)) (\<lambda>file_meta.
         io_bind (io_pure (py_get metadata ''file_pvalues'' JNull)) (\<lambda>file_pvalues.
           heatmaps_plot_results E t file_meta file_pvalues job_id))
       else
         io_pure (Inr (Failure job_id ''UnknownPlotType''
           (''Given plot type does not exist: '' @ py_str E plot_type))))))"

subsection \<open>Method handlers\<close>

definition statistical_analysis ::
  "env \<Rightarrow> nat \<Rightarrow> dataframe \<Rightarrow> dataframe \<Rightarrow> json \<Rightarrow> json \<Rightarrow> subsampler option \<Rightarrow> result io" where
  "statistical_analysis E t meta counts job_id metadata sampler =
     io_bind (io_pure (subscript metadata ''threshold'')) (\<lambda>v_threshold.
     io_bind (io_pure (py_float E v_threshold)) (\<lambda>threshold.
     io_bind (io_pure (subscript metadata ''iterations'')) (\<lambda>v_iterations.
     io_bind (io_pure (py_int E v_iterations)) (\<lambda>iterations.
     io_bind (io_pure (subscript metadata ''result_precision'')) (\<lambda>v_precision.
     io_bind (io_pure (py_int E v_precision)) (\<lambda>result_precision.
     io_bind (io_pure (py_get metadata ''pvalue'' (JFloat (Finite 0.05)))) (\<lambda>v_pvalue.
     io_bind (io_pure (py_float E v_pvalue)) (\<lambda>pvalue.
       let args = \<lparr>threshold = threshold, result_precision = result_precision,
                    subsampler = sampler, iterations = iterations, debug_seed = - 1,
                    threads = 4, pvalue = pvalue\<rparr> in
       io_bind (io_emit (Statistical meta counts args)) (\<lambda>_.
       io_bind (io_pure (cpdb_statistical_analysis_launcher E t meta counts args))
         (\<lambda>(pvalues, means, significant_means, deconvoluted).
           let f_pvalues = ''pvalues_simple_'' @ py_str E job_id @ ''.txt'';
               f_means = ''means_simple_'' @ py_str E job_id @ ''.txt'';
               f_significant_means = ''significant_means_simple_'' @ py_str E job_id @ ''.txt'';
               f_deconvoluted = ''deconvoluted_simple_'' @ py_str E job_id @ ''.txt'';
               response = Success job_id
                 [(''pvalues'', f_pvalues), (''means'', f_means),
                  (''significant_means'', f_significant_means),
                  (''deconvoluted'', f_deconvoluted)] in
           io_bind (write_data_in_s3 E t pvalues f_pvalues) (\<lambda>_.
           io_bind (write_data_in_s3 E t means f_means) (\<lambda>_.
           io_bind (write_data_in_s3 E t significant_means f_significant_means) (\<lambda>_.
           io_bind (write_data_in_s3 E t deconvoluted f_deconvoluted) (\<lambda>_.
           io_pure (Inr response)))))))))))))))"

definition non_statistical_analysis ::
  "env \<Rightarrow> nat \<Rightarrow> dataframe \<Rightarrow> dataframe \<Rightarrow> json \<Rightarrow> json \<Rightarrow> subsampler option \<Rightarrow> result io" where
  "non_statistical_analysis E t meta counts job_id metadata sampler =
     io_bind (io_pure (subscript metadata ''threshold'')) (\<lambda>v_threshold.
     io_bind (io_pure (py_float E v_threshold)) (\<lambda>threshold.
     io_bind (io_pure (subscript metadata ''result_precision'')) (\<lambda>v_precision.
     io_bind (io_pure (py_int E v_precision)) (\<lambda>result_precision.
       let args = \<lparr>threshold = threshold, result_precision = result_precision,
                    subsampler = sampler\<rparr> in
       io_bind (io_emit (Method meta counts args)) (\<lambda>_.
       io_bind (io_pure (cpdb_method_analysis_launcher E t meta counts args))
         (\<lambda>(means, significant_means, deconvoluted).
           let f_means = ''means_simple_'' @ py_str E job_id @ ''.txt'';
               f_significant_means = ''significant_means_'' @ py_str E job_id @ ''.txt'';
               f_deconvoluted = ''deconvoluted_simple_'' @ py_str E job_id @ ''.txt'';
               response = Success job_id
                 [(''means'', f_means), (''significant_means'', f_significant_means),
                  (''deconvoluted'', f_deconvoluted)] in
           io_bind (write_data_in_s3 E t means f_means) (\<lambda>_.
           io_bind (write_data_in_s3 E t significant_means f_significant_means) (\<lambda>_.
           io_bind (write_data_in_s3 E t deconvoluted f_deconvoluted) (\<lambda>_.
           io_pure (Inr response))))))))))"

text \<open>
  The conditional expression that builds the \<open>Subsampler\<close>: the condition is evaluated
  first, the constructor's arguments from left to right only when it holds.
\<close>

definition make_subsampler :: "env \<Rightarrow> json \<Rightarrow> subsampler option io" where
  "make_subsampler E metadata =
     io_bind (io_pure (py_get metadata ''subsampling'' (JBool False))) (\<lambda>subsampling.
       if truthy subsampling then
         io_bind (io_pure (subscript metadata ''log'')) (\<lambda>v_log.
         io_bind (io_pure (subscript metadata ''num_pc'')) (\<lambda>v_num_pc.
         io_bind (io_pure (py_int E v_num_pc)) (\<lambda>i_num_pc.
         io_bind (io_pure (py_get metadata ''num_cells'' (JBool False))) (\<lambda>has_num_cells.
           if truthy has_num_cells then
             io_bind (io_pure (subscript metadata ''num_cells'')) (\<lambda>v_num_cells.
             io_bind (io_pure (py_int E v_num_cells)) (\<lambda>i_num_cells.
             io_pure (Inr (Some \<lparr>log = truthy v_log, num_pc = i_num_pc,
                                  num_cells = Some i_num_cells\<rparr>))))
           else
             io_pure (Inr (Some \<lparr>log = truthy v_log, num_pc = i_num_pc,
                                  num_cells = None\<rparr>))))))
       else io_pure (Inr None))"

definition process_method :: "env \<Rightarrow> nat \<Rightarrow> string \<Rightarrow> result io" where
  "process_method E t body =
     io_bind (io_pure (json_loads E body)) (\<lambda>metadata.
     io_bind (io_pure (subscript metadata ''job_id'')) (\<lambda>job_id.
     io_bind (io_pure (subscript metadata ''file_meta'')) (\<lambda>file_meta.
     io_bind (io_pure (read_data_from_s3 E t file_meta False)) (\<lambda>meta.
     io_bind (io_pure (subscript metadata ''file_counts'')) (\<lambda>file_counts.
     io_bind (io_pure (read_data_from_s3 E t file_counts True)) (\<lambda>counts.
     io_bind (make_subsampler E metadata) (\<lambda>sampler.
     io_bind (io_pure (subscript metadata ''iterations'')) (\<lambda>v_iterations.
       if truthy v_iterations then
         statistical_analysis E t meta counts job_id metadata sampler
       else
         non_statistical_analysis E t meta counts job_id metadata sampler))))))))"

subsection \<open>The worker loop\<close>

record state =
  jobs_runned :: nat
  connection :: nat
  connections_made :: nat
  polls :: nat
  trace :: "event list"

definition consume_more_jobs :: bool where
  "consume_more_jobs = True"

text \<open>
  \<open>create_rabbit_connection\<close> followed by \<open>channel\<close> and \<open>basic_qos\<close>: the variables
  \<open>connection\<close> and \<open>channel\<close> are always assigned together, so one number names both.
\<close>

definition create_rabbit_connection :: "state \<Rightarrow> state" where
  "create_rabbit_connection st =
     st\<lparr>connection := connections_made st,
        connections_made := Suc (connections_made st),
        trace := trace st @ [Connected (connections_made st)]\<rparr>"

definition basic_publish :: "result \<Rightarrow> state \<Rightarrow> state" where
  "basic_publish r st = st\<lparr>trace := trace st @ [Published (connection st) r]\<rparr>"

definition emit_all :: "event list \<Rightarrow> state \<Rightarrow> state" where
  "emit_all evs st = st\<lparr>trace := trace st @ evs\<rparr>"

definition sleep :: "state \<Rightarrow> state" where
  "sleep st = st\<lparr>polls := Suc (polls st)\<rparr>"

definition count_job :: "state \<Rightarrow> state" where
  "count_job st = st\<lparr>jobs_runned := Suc (jobs_runned st)\<rparr>"

definition classified :: "exn \<Rightarrow> bool" where
  "classified e = (case exn_class e of Other _ \<Rightarrow> False | _ \<Rightarrow> True)"

text \<open>The message of a classified error, from its description and hint.\<close>

definition attr_text :: "string option \<Rightarrow> string" where
  "attr_text a = (case a of None \<Rightarrow> [] | Some s \<Rightarrow> if s \<noteq> [] then '' '' @ s @ ''.'' else [])"

definition error_message :: "exn \<Rightarrow> string" where
  "error_message e = attr_text (description e) @ attr_text (hint e)"

text \<open>\<open>json.loads(job[2].decode('utf-8'))['job_id']\<close>, as the except blocks evaluate it.\<close>

definition body_job_id :: "env \<Rightarrow> string \<Rightarrow> exn + json" where
  "body_job_id E body =
     (case json_loads E body of Inl e \<Rightarrow> Inl e | Inr metadata \<Rightarrow> subscript metadata ''job_id'')"

definition reconnect_if_closed :: "env \<Rightarrow> state \<Rightarrow> state" where
  "reconnect_if_closed E st =
     (if is_closed E (polls st) (connection st) then create_rabbit_connection st else st)"

definition handler :: "env \<Rightarrow> nat \<Rightarrow> string \<Rightarrow> result io" where
  "handler E t body =
     (if jobs_queue_name E = ''plot_jobs'' then process_plot E t body
      else process_method E t body)"

datatype step = Continue state | Abort exn state

text \<open>
  One iteration of the \<open>while\<close> loop. An exception raised inside an \<open>except\<close> block
  leaves the loop and ends the process: that is \<open>Abort\<close>.
\<close>

definition loop_body :: "env \<Rightarrow> state \<Rightarrow> step" where
  "loop_body E st =
     (let job = basic_get E (polls st);
          st1 = emit_all [BasicGet job] st in
      case job of
        None \<Rightarrow> Continue (sleep st1)
      | Some body \<Rightarrow>
          if body = [] then Continue (sleep st1)
          else
            (case handler E (polls st) body of
               (Inr job_response, evs) \<Rightarrow>
                 Continue (sleep (count_job
                   (basic_publish job_response
                     (create_rabbit_connection (emit_all evs st1)))))
             | (Inl e, evs) \<Rightarrow>
                 if classified e then
                   (case body_job_id E body of
                      Inl e' \<Rightarrow> Abort e' (emit_all evs st1)
                    | Inr job_id \<Rightarrow>
                        Continue (sleep (count_job
                          (basic_publish (Failure job_id (exn_str e) (error_message e))
                            (reconnect_if_closed E (emit_all evs st1))))))
                 else
                   (case body_job_id E body of
                      Inl e' \<Rightarrow> Abort e' (emit_all evs st1)
                    | Inr job_id \<Rightarrow>
                        Continue (sleep (count_job
                          (basic_publish (Failure job_id ''unknown_error'' [])
                            (reconnect_if_closed E (emit_all evs st1))))))))"

datatype outcome = Exited state | Crashed exn state | Running state

text \<open>
  The loop \<open>while jobs_runned < 3 and consume_more_jobs\<close>, run for at most \<open>n\<close>
  iterations: \<open>Running\<close> is a loop whose condition still holds after \<open>n\<close> iterations.
\<close>

fun worker_loop :: "env \<Rightarrow> nat \<Rightarrow> state \<Rightarrow> outcome" where
  "worker_loop E 0 st =
     (if jobs_runned st < 3 \<and> consume_more_jobs then Running st else Exited st)"
| "worker_loop E (Suc n) st =
     (if jobs_runned st < 3 \<and> consume_more_jobs then
        (case loop_body E st of
           Abort e st' \<Rightarrow> Crashed e st'
         | Continue st' \<Rightarrow> worker_loop E n st')
      else Exited st)"

text \<open>The state when the loop is entered: one connection made, no job run.\<close>

definition initial_state :: state where
  "initial_state =
     \<lparr>jobs_runned = 0, connection = 0, connections_made = 1, polls = 0,
      trace = [Connected 0]\<rparr>"

definition main :: "env \<Rightarrow> nat \<Rightarrow> outcome" where
  "main E n = worker_loop E n initial_state"

subsection \<open>Observations on states and traces\<close>

fun final_state :: "outcome \<Rightarrow> state" where
  "final_state (Exited st) = st"
| "final_state (Crashed e st) = st"
| "final_state (Running st) = st"

fun step_state :: "step \<Rightarrow> state" where
  "step_state (Continue st) = st"
| "step_state (Abort e st) = st"

fun published :: "event list \<Rightarrow> result list" where
  "published [] = []"
| "published (Published c r # evs) = r # published evs"
| "published (_ # evs) = published evs"

fun connects :: "event list \<Rightarrow> nat list" where
  "connects [] = []"
| "connects (Connected c # evs) = c # connects evs"
| "connects (_ # evs) = connects evs"

fun launcher_calls :: "event list \<Rightarrow> event list" where
  "launcher_calls [] = []"
| "launcher_calls (Statistical m c a # evs) = Statistical m c a # launcher_calls evs"
| "launcher_calls (Method m c a # evs) = Method m c a # launcher_calls evs"
| "launcher_calls (_ # evs) = launcher_calls evs"

fun stored_keys :: "event list \<Rightarrow> string list" where
  "stored_keys [] = []"
| "stored_keys (S3Put k b # evs) = k # stored_keys evs"
| "stored_keys (_ # evs) = stored_keys evs"

text \<open>The messages handed to a handler: the polls that returned a non-empty body.\<close>

fun jobs_taken :: "event list \<Rightarrow> string list" where
  "jobs_taken [] = []"
| "jobs_taken (BasicGet (Some body) # evs) =
     (if body = [] then jobs_taken evs else body # jobs_taken evs)"
| "jobs_taken (_ # evs) = jobs_taken evs"

fun result_job_id :: "result \<Rightarrow> json" where
  "result_job_id (Success j files) = j"
| "result_job_id (Failure j i m) = j"

fun is_success :: "result \<Rightarrow> bool" where
  "is_success (Success j files) = True"
| "is_success (Failure j i m) = False"

text \<open>The events an iteration adds to the trace.\<close>

definition new_events :: "env \<Rightarrow> state \<Rightarrow> event list" where
  "new_events E st = drop (length (trace st)) (trace (step_state (loop_body E st)))"

text \<open>The events a handler can emit: launcher calls and object store writes.\<close>

fun handler_event :: "event \<Rightarrow> bool" where
  "handler_event (Statistical m c a) = True"
| "handler_event (Method m c a) = True"
| "handler_event (S3Put k b) = True"
| "handler_event _ = False"

text \<open>Whether an iteration makes a new connection before it publishes.\<close>

definition rebuilds :: "env \<Rightarrow> state \<Rightarrow> string \<Rightarrow> bool" where
  "rebuilds E st body =
     (case fst (handler E (polls st) body) of
        Inr job_response \<Rightarrow> True
      | Inl e \<Rightarrow> is_closed E (polls st) (connection st))"

text \<open>
  The response an iteration publishes for a job with id \<open>j\<close>: what the handler
  returned, or the error response of the except block that catches what it raised.
\<close>

definition reply :: "json \<Rightarrow> exn + result \<Rightarrow> result" where
  "reply j out =
     (case out of
        Inr job_response \<Rightarrow> job_response
      | Inl e \<Rightarrow>
          if classified e then Failure j (exn_str e) (error_message e)
          else Failure j ''unknown_error'' [])"

text \<open>A poll that hands a job with a readable \<open>job_id\<close> to the handler.\<close>

definition delivers :: "env \<Rightarrow> nat \<Rightarrow> bool" where
  "delivers E t =
     (case basic_get E t of
        None \<Rightarrow> False
      | Some body \<Rightarrow> body \<noteq> [] \<and> (case body_job_id E body of Inl e \<Rightarrow> False | Inr j \<Rightarrow> True))"

subsection \<open>Example environments\<close>

text \<open>
  A method worker on a queue that stays empty; every external call succeeds, and the
  text of a PlotException is the string given to its constructor.
\<close>

definition idle_env :: env where
  "idle_env =
     \<lparr>jobs_queue_name = ''method_jobs'',
      json_loads = (\<lambda>b. Inl (builtin_error ''JSONDecodeError'' [])),
      py_repr = (\<lambda>v. ''?''),
      int_of_str = (\<lambda>s. None),
      float_of_str = (\<lambda>s. None),
      plot_exception =
        (\<lambda>msg. \<lparr>exn_class = PlotException, exn_str = msg, description = None, hint = None\<rparr>),
      basic_get = (\<lambda>t. None),
      is_closed = (\<lambda>t c. False),
      s3_get_object = (\<lambda>t k. Inr ''bytes''),
      read_data_from_s3_object = (\<lambda>t obj k first. Inr [[obj]]),
      s3_put_object = (\<lambda>t k b. None),
      cpdb_statistical_analysis_launcher =
        (\<lambda>t m c a. Inr ([[''p'']], [[''m'']], [[''s'']], [[''d'']])),
      cpdb_method_analysis_launcher = (\<lambda>t m c a. Inr ([[''m'']], [[''s'']], [[''d'']])),
      dot_plot = (\<lambda>t m p out r c. Inr (Some ''png'')),
      heatmaps_plot = (\<lambda>t m p c l. Inr (Some ''png'', Some ''png''))\<rparr>"

text \<open>A method job with id \<open>"7"\<close> and the given number of iterations.\<close>

definition method_job :: "int \<Rightarrow> json" where
  "method_job n =
     JObj [(''job_id'', JStr ''7''), (''file_meta'', JStr ''meta.txt''),
           (''file_counts'', JStr ''counts.txt''), (''iterations'', JInt n),
           (''threshold'', JFloat (Finite 0.1)), (''result_precision'', JInt 3)]"

text \<open>A method worker whose queue holds that job at every poll.\<close>

definition method_env :: "int \<Rightarrow> env" where
  "method_env n =
     idle_env\<lparr>json_loads := (\<lambda>b. Inr (method_job n)), basic_get := (\<lambda>t. Some ''job'')\<rparr>"

text \<open>The same worker when the object store refuses every read.\<close>

definition failing_store_env :: env where
  "failing_store_env =
     (method_env 0)\<lparr>s3_get_object := (\<lambda>t k. Inl (builtin_error ''ClientError'' ''NoSuchKey''))\<rparr>"

text \<open>A method worker whose queue holds messages without a \<open>job_id\<close>.\<close>

definition anonymous_env :: env where
  "anonymous_env =
     idle_env\<lparr>json_loads := (\<lambda>b. Inr (JObj [(''file_meta'', JStr ''meta.txt'')])),
              basic_get := (\<lambda>t. Some ''job'')\<rparr>"

text \<open>A plot job with id \<open>"7"\<close> of the given type, and a plot worker that receives it.\<close>

definition plot_job :: "string \<Rightarrow> json" where
  "plot_job ty =
     JObj [(''job_id'', JStr ''7''), (''type'', JStr ty),
           (''file_meta'', JStr ''meta.txt''), (''file_pvalues'', JStr ''pvalues.txt'')]"

definition plot_env :: "string \<Rightarrow> env" where
  "plot_env ty =
     idle_env\<lparr>jobs_queue_name := ''plot_jobs'', json_loads := (\<lambda>b. Inr (plot_job ty)),
              basic_get := (\<lambda>t. Some ''job'')\<rparr>"

text \<open>A plot worker whose heatmap plotter leaves the second output file out.\<close>

definition half_plot_env :: env where
  "half_plot_env =
     (plot_env ''heatmaps_plot'')\<lparr>heatmaps_plot := (\<lambda>t m p c l. Inr (Some ''png'', None))\<rparr>"

text \<open>
  The same worker with a PlotException class whose text puts \<open>R Plot Exception: \<close>
  before the string given to the constructor.
\<close>

definition prefixed_plot_env :: env where
  "prefixed_plot_env =
     half_plot_env\<lparr>plot_exception :=
       (\<lambda>msg. \<lparr>exn_class = PlotException, exn_str = ''R Plot Exception: '' @ msg,
               description = None, hint = None\<rparr>)\<rparr>"

section \<open>Properties of the handlers and of one iteration\<close>

subsection \<open>Conversion of integers to floats\<close>

lemma bit_length_upper: "n < 2 ^ bit_length n"
proof (induction n rule: bit_length.induct)
  case (1 n)
  show ?case
  proof (cases "n = 0")
    case True
    then show ?thesis by (simp add: bit_length.simps)
  next
    case False
    with 1 have "n div 2 < 2 ^ bit_length (n div 2)" by simp
    then have "n < 2 * 2 ^ bit_length (n div 2)" by linarith
    with False show ?thesis by (simp add: bit_length.simps[of n])
  qed
qed

lemma bit_length_lower: "n \<noteq> 0 \<Longrightarrow> 2 ^ (bit_length n - 1) \<le> n"
proof (induction n rule: bit_length.induct)
  case (1 n)
  show ?case
  proof (cases "n div 2 = 0")
    case True
    with 1(2) have "n = 1" by (cases n) auto
    then show ?thesis by (simp add: bit_length.simps[of "Suc 0"] bit_length.simps[of 0])
  next
    case False
    with 1 have ih: "2 ^ (bit_length (n div 2) - 1) \<le> n div 2" by simp
    from False have "bit_length (n div 2) \<noteq> 0" by (simp add: bit_length.simps[of "n div 2"])
    then have "(2::nat) ^ bit_length (n div 2) = 2 * 2 ^ (bit_length (n div 2) - 1)"
      by (cases "bit_length (n div 2)") simp_all
    with ih have "2 ^ bit_length (n div 2) \<le> n" by linarith
    with 1(2) show ?thesis by (simp add: bit_length.simps[of n])
  qed
qed

lemma round53_small:
  assumes "a < 2 ^ 53"
  shows "round53 a = a"
proof -
  have "bit_length a \<le> 53"
  proof (cases "a = 0")
    case True
    then show ?thesis by (simp add: bit_length.simps[of 0])
  next
    case False
    from bit_length_lower[OF False] assms have "(2::nat) ^ (bit_length a - 1) < 2 ^ 53"
      by (rule le_less_trans)
    moreover have "(1::nat) < 2" by simp
    ultimately have "bit_length a - 1 < 53" by (rule power_less_imp_less_exp[rotated])
    then show ?thesis by simp
  qed
  then have "bit_length a - 53 = 0" by simp
  then show ?thesis by (simp add: round53_def Let_def)
qed

lemma round53_large:
  assumes "2 ^ 1024 \<le> a"
  shows "2 ^ 1024 \<le> round53 a"
proof -
  define L where "L = bit_length a"
  define e where "e = L - 53"
  define q where "q = a div 2 ^ e"
  define r where "r = a mod 2 ^ e"
  define m where "m = (if 2 ^ e < 2 * r \<or> (2 * r = 2 ^ e \<and> odd q) then Suc q else q) * 2 ^ e"
  have rm: "round53 a = m"
    by (simp add: round53_def Let_def m_def q_def r_def e_def L_def)
  have "(0::nat) < 2 ^ 1024" by simp
  with assms have a0: "a \<noteq> 0" by linarith
  from assms bit_length_upper[of a] have "(2::nat) ^ 1024 < 2 ^ L"
    unfolding L_def by (rule le_less_trans)
  moreover have "(1::nat) < 2" by simp
  ultimately have L: "1024 < L" by (rule power_less_imp_less_exp[rotated])
  then have split: "L - 1 = 52 + e" by (simp add: e_def)
  have low: "(2::nat) ^ (L - 1) \<le> a"
    using bit_length_lower[OF a0] by (simp add: L_def)
  have pw: "(2::nat) ^ (L - 1) = 2 ^ 52 * 2 ^ e"
    unfolding split by (rule power_add)
  have "(2::nat) ^ 52 \<le> q"
  proof -
    from low pw have "(2::nat) ^ 52 * 2 ^ e \<le> a" by (simp only:)
    then have "(2 ^ 52 * 2 ^ e) div 2 ^ e \<le> a div 2 ^ e" by (rule div_le_mono)
    moreover have "((2::nat) ^ 52 * 2 ^ e) div 2 ^ e = 2 ^ 52"
      by (rule nonzero_mult_div_cancel_right) simp
    ultimately show ?thesis by (simp only: q_def)
  qed
  then have "2 ^ 52 * 2 ^ e \<le> q * 2 ^ e" by (rule mult_le_mono1)
  also have "q * 2 ^ e \<le> m" by (simp add: m_def)
  finally have "(2::nat) ^ (L - 1) \<le> m" by (simp only: pw)
  moreover from L have "(2::nat) ^ 1024 \<le> 2 ^ (L - 1)"
    by (intro power_increasing) simp_all
  ultimately have "(2::nat) ^ 1024 \<le> m" by (rule order_trans[rotated])
  with rm show ?thesis by (simp only:)
qed

lemma py_float_small:
  assumes "\<bar>i\<bar> < 2 ^ 53"
  shows "py_float E (JInt i) = Inr (Finite (of_int i))"
proof -
  have le: "(2::int) ^ 53 \<le> 2 ^ 1024" by (intro power_increasing) simp_all
  have a: "nat \<bar>i\<bar> < 2 ^ 53" using assms by (simp add: nat_less_iff)
  have d: "double_of_int i = i"
  proof (cases "i < 0")
    case True
    with a have "nat (- i) < 2 ^ 53" by simp
    from round53_small[OF this] True show ?thesis by (simp add: double_of_int_def)
  next
    case False
    with a have "nat i < 2 ^ 53" by simp
    from round53_small[OF this] False show ?thesis by (simp add: double_of_int_def)
  qed
  from assms le have "\<not> 2 ^ 1024 \<le> \<bar>i\<bar>" by linarith
  with d show ?thesis by simp
qed

lemma py_float_overflow:
  assumes "2 ^ 1024 \<le> \<bar>i\<bar>"
  shows "py_float E (JInt i) =
           Inl (builtin_error ''OverflowError'' ''int too large to convert to float'')"
proof -
  have "(2::int) ^ 1024 \<le> \<bar>double_of_int i\<bar>"
  proof (cases "i < 0")
    case True
    with assms have "(2::nat) ^ 1024 \<le> nat (- i)" by (simp add: le_nat_iff)
    from round53_large[OF this] have "int (2 ^ 1024) \<le> int (round53 (nat (- i)))"
      by (simp only: of_nat_le_iff)
    with True show ?thesis by (simp add: double_of_int_def)
  next
    case False
    with assms have "(2::nat) ^ 1024 \<le> nat i" by (simp add: le_nat_iff)
    from round53_large[OF this] have "int (2 ^ 1024) \<le> int (round53 (nat i))"
      by (simp only: of_nat_le_iff)
    with False show ?thesis by (simp add: double_of_int_def)
  qed
  then show ?thesis by simp
qed

subsection \<open>Sequencing\<close>

lemma io_bind_pure: "io_bind (io_pure r) f = (case r of Inl e \<Rightarrow> (Inl e, []) | Inr x \<Rightarrow> f x)"
  by (simp add: io_bind_def io_pure_def split: sum.splits prod.splits)

lemma io_bind_Inr_E:
  assumes "io_bind m f = (Inr y, evs)"
  obtains x e1 e2 where "m = (Inr x, e1)" "f x = (Inr y, e2)" "evs = e1 @ e2"
  using assms by (auto simp: io_bind_def split: sum.splits prod.splits)

lemma io_bind_quiet:
  assumes "list_all handler_event (snd m)" and "\<And>x. list_all handler_event (snd (f x))"
  shows "list_all handler_event (snd (io_bind m f))"
proof (cases m)
  case (Pair r evs)
  show ?thesis
  proof (cases r)
    case (Inl e)
    with Pair assms(1) show ?thesis by (simp add: io_bind_def)
  next
    case (Inr x)
    obtain r' evs' where fx: "f x = (r', evs')" by (cases "f x")
    from assms(2)[of x] fx have "list_all handler_event evs'" by simp
    with Pair Inr fx assms(1) show ?thesis by (simp add: io_bind_def)
  qed
qed

lemma io_pure_quiet: "list_all handler_event (snd (io_pure r))"
  by (simp add: io_pure_def)

lemma write_data_quiet: "list_all handler_event (snd (write_data_in_s3 E t d k))"
  by (simp add: write_data_in_s3_def io_emit_def split: option.splits)

lemma write_image_quiet: "list_all handler_event (snd (write_image_to_s3 E t d k))"
  by (simp add: write_image_to_s3_def io_emit_def split: option.splits)

lemma from_s3_quiet: "list_all handler_event (snd (from_s3_to_temp E t k))"
  by (simp add: from_s3_to_temp_def io_pure_def)

lemma io_emit_quiet: "handler_event ev \<Longrightarrow> list_all handler_event (snd (io_emit ev))"
  by (simp add: io_emit_def)

lemmas quiet_intros = io_bind_quiet io_pure_quiet write_data_quiet write_image_quiet
  from_s3_quiet io_emit_quiet

lemma statistical_analysis_quiet:
  "list_all handler_event (snd (statistical_analysis E t meta counts j md s))"
  unfolding statistical_analysis_def Let_def
  by (intro quiet_intros) (auto intro!: quiet_intros)

lemma non_statistical_analysis_quiet:
  "list_all handler_event (snd (non_statistical_analysis E t meta counts j md s))"
  unfolding non_statistical_analysis_def Let_def
  by (intro quiet_intros) (auto intro!: quiet_intros)

lemma make_subsampler_quiet: "list_all handler_event (snd (make_subsampler E md))"
  unfolding make_subsampler_def
  by (intro quiet_intros) (auto intro!: quiet_intros)

lemma process_method_quiet: "list_all handler_event (snd (process_method E t body))"
  unfolding process_method_def
  by (intro quiet_intros) (auto intro!: quiet_intros statistical_analysis_quiet
        non_statistical_analysis_quiet make_subsampler_quiet)

lemma dot_plot_results_quiet:
  "list_all handler_event (snd (dot_plot_results E t a b c d j))"
  unfolding dot_plot_results_def Let_def
  by (intro quiet_intros) (auto intro!: quiet_intros split: option.splits)

lemma heatmaps_plot_results_quiet:
  "list_all handler_event (snd (heatmaps_plot_results E t a b j))"
  unfolding heatmaps_plot_results_def Let_def
  by (intro quiet_intros) (auto intro!: quiet_intros split: option.splits)

lemma process_plot_quiet: "list_all handler_event (snd (process_plot E t body))"
  unfolding process_plot_def
  by (intro quiet_intros) (auto intro!: quiet_intros dot_plot_results_quiet
        heatmaps_plot_results_quiet)

lemma handler_quiet: "list_all handler_event (snd (handler E t body))"
  by (simp add: handler_def process_plot_quiet process_method_quiet)


subsection \<open>Projections of traces\<close>

lemma published_append: "published (xs @ ys) = published xs @ published ys"
  by (induction xs rule: published.induct) simp_all

lemma connects_append: "connects (xs @ ys) = connects xs @ connects ys"
  by (induction xs rule: connects.induct) simp_all

lemma stored_keys_append: "stored_keys (xs @ ys) = stored_keys xs @ stored_keys ys"
  by (induction xs rule: stored_keys.induct) simp_all

lemma jobs_taken_append: "jobs_taken (xs @ ys) = jobs_taken xs @ jobs_taken ys"
  by (induction xs rule: jobs_taken.induct) simp_all

lemma launcher_calls_append: "launcher_calls (xs @ ys) = launcher_calls xs @ launcher_calls ys"
  by (induction xs rule: launcher_calls.induct) simp_all

lemma quiet_published: "list_all handler_event evs \<Longrightarrow> published evs = []"
  by (induction evs rule: published.induct) simp_all

lemma quiet_connects: "list_all handler_event evs \<Longrightarrow> connects evs = []"
  by (induction evs rule: connects.induct) simp_all

lemma quiet_jobs_taken: "list_all handler_event evs \<Longrightarrow> jobs_taken evs = []"
  by (induction evs rule: jobs_taken.induct) simp_all

subsection \<open>What a handler returns\<close>

lemma write_data_Inr: "write_data_in_s3 E t d k = (Inr u, evs) \<Longrightarrow> evs = [S3Put k (Csv d)]"
  by (auto simp: write_data_in_s3_def io_emit_def split: option.splits)

lemma write_image_Inr: "write_image_to_s3 E t d k = (Inr u, evs) \<Longrightarrow> evs = [S3Put k (Image d)]"
  by (auto simp: write_image_to_s3_def io_emit_def split: option.splits)

lemma statistical_analysis_Inr:
  assumes "statistical_analysis E t meta counts j md s = (Inr r, evs)"
  shows "r = Success j
          [(''pvalues'', ''pvalues_simple_'' @ py_str E j @ ''.txt''),
           (''means'', ''means_simple_'' @ py_str E j @ ''.txt''),
           (''significant_means'', ''significant_means_simple_'' @ py_str E j @ ''.txt''),
           (''deconvoluted'', ''deconvoluted_simple_'' @ py_str E j @ ''.txt'')]"
    and "stored_keys evs =
          [''pvalues_simple_'' @ py_str E j @ ''.txt'',
           ''means_simple_'' @ py_str E j @ ''.txt'',
           ''significant_means_simple_'' @ py_str E j @ ''.txt'',
           ''deconvoluted_simple_'' @ py_str E j @ ''.txt'']"
  using assms unfolding statistical_analysis_def Let_def
  by (auto simp: io_pure_def io_emit_def split: prod.splits
        dest!: write_data_Inr elim!: io_bind_Inr_E)

lemma non_statistical_analysis_Inr:
  assumes "non_statistical_analysis E t meta counts j md s = (Inr r, evs)"
  shows "r = Success j
          [(''means'', ''means_simple_'' @ py_str E j @ ''.txt''),
           (''significant_means'', ''significant_means_'' @ py_str E j @ ''.txt''),
           (''deconvoluted'', ''deconvoluted_simple_'' @ py_str E j @ ''.txt'')]"
    and "stored_keys evs =
          [''means_simple_'' @ py_str E j @ ''.txt'',
           ''significant_means_'' @ py_str E j @ ''.txt'',
           ''deconvoluted_simple_'' @ py_str E j @ ''.txt'']"
  using assms unfolding non_statistical_analysis_def Let_def
  by (auto simp: io_pure_def io_emit_def split: prod.splits
        dest!: write_data_Inr elim!: io_bind_Inr_E)

lemma dot_plot_results_Inr:
  assumes "dot_plot_results E t a b c d j = (Inr r, evs)"
  shows "r = Success j [(''plot'', ''plot__'' @ py_str E j @ ''.png'')]"
    and "stored_keys evs = [''plot__'' @ py_str E j @ ''.png'']"
  using assms unfolding dot_plot_results_def Let_def
  by (auto simp: io_pure_def from_s3_to_temp_def split: prod.splits option.splits
        dest!: write_image_Inr elim!: io_bind_Inr_E)

lemma heatmaps_plot_results_Inr:
  assumes "heatmaps_plot_results E t a b j = (Inr r, evs)"
  shows "r = Success j [(''count_plot'', ''plot_count__'' @ py_str E j @ ''.png''),
                        (''count_log_plot'', ''plot_count_log__'' @ py_str E j @ ''.png'')]"
    and "stored_keys evs = [''plot_count__'' @ py_str E j @ ''.png'',
                            ''plot_count_log__'' @ py_str E j @ ''.png'']"
  using assms unfolding heatmaps_plot_results_def Let_def
  by (auto simp: io_pure_def from_s3_to_temp_def split: prod.splits option.splits
        dest!: write_image_Inr elim!: io_bind_Inr_E)

lemma snd_io_pure: "snd (io_pure r) = []"
  by (simp add: io_pure_def)

lemma make_subsampler_events: "snd (make_subsampler E md) = []"
  unfolding make_subsampler_def
  by (simp add: io_bind_pure snd_io_pure split: sum.splits)

lemma process_method_Inr:
  assumes "process_method E t body = (Inr r, evs)"
  shows "\<exists>md j v. json_loads E body = Inr md \<and> subscript md ''job_id'' = Inr j
           \<and> subscript md ''iterations'' = Inr v
           \<and> (if truthy v then
                r = Success j
                  [(''pvalues'', ''pvalues_simple_'' @ py_str E j @ ''.txt''),
                   (''means'', ''means_simple_'' @ py_str E j @ ''.txt''),
                   (''significant_means'', ''significant_means_simple_'' @ py_str E j @ ''.txt''),
                   (''deconvoluted'', ''deconvoluted_simple_'' @ py_str E j @ ''.txt'')]
                \<and> stored_keys evs =
                  [''pvalues_simple_'' @ py_str E j @ ''.txt'',
                   ''means_simple_'' @ py_str E j @ ''.txt'',
                   ''significant_means_simple_'' @ py_str E j @ ''.txt'',
                   ''deconvoluted_simple_'' @ py_str E j @ ''.txt'']
              else
                r = Success j
                  [(''means'', ''means_simple_'' @ py_str E j @ ''.txt''),
                   (''significant_means'', ''significant_means_'' @ py_str E j @ ''.txt''),
                   (''deconvoluted'', ''deconvoluted_simple_'' @ py_str E j @ ''.txt'')]
                \<and> stored_keys evs =
                  [''means_simple_'' @ py_str E j @ ''.txt'',
                   ''significant_means_'' @ py_str E j @ ''.txt'',
                   ''deconvoluted_simple_'' @ py_str E j @ ''.txt''])"
proof -
  from assms obtain md j meta counts s v e1 e2 where
    md: "json_loads E body = Inr md" and j: "subscript md ''job_id'' = Inr j"
    and s: "make_subsampler E md = (Inr s, e1)"
    and v: "subscript md ''iterations'' = Inr v"
    and run: "(if truthy v then statistical_analysis E t meta counts j md s
              else non_statistical_analysis E t meta counts j md s) = (Inr r, e2)"
    and evs: "evs = e1 @ e2"
    unfolding process_method_def
    by (auto simp: io_pure_def elim!: io_bind_Inr_E)
  from s make_subsampler_events[of E md] have "e1 = []" by simp
  with evs have evs': "evs = e2" by simp
  show ?thesis
  proof (cases "truthy v")
    case True
    with run have "statistical_analysis E t meta counts j md s = (Inr r, e2)" by simp
    from statistical_analysis_Inr[OF this] md j v True evs' show ?thesis by auto
  next
    case False
    with run have "non_statistical_analysis E t meta counts j md s = (Inr r, e2)" by simp
    from non_statistical_analysis_Inr[OF this] md j v False evs' show ?thesis by auto
  qed
qed

lemma process_plot_Inr:
  assumes "process_plot E t body = (Inr r, evs)"
  shows "\<exists>md j ty. json_loads E body = Inr md \<and> subscript md ''job_id'' = Inr j
           \<and> py_get md ''type'' JNull = Inr ty
           \<and> (if ty = JStr ''dot_plot'' then
                r = Success j [(''plot'', ''plot__'' @ py_str E j @ ''.png'')]
                \<and> stored_keys evs = [''plot__'' @ py_str E j @ ''.png'']
              else if ty = JStr ''heatmaps_plot'' then
                r = Success j [(''count_plot'', ''plot_count__'' @ py_str E j @ ''.png''),
                               (''count_log_plot'', ''plot_count_log__'' @ py_str E j @ ''.png'')]
                \<and> stored_keys evs = [''plot_count__'' @ py_str E j @ ''.png'',
                                      ''plot_count_log__'' @ py_str E j @ ''.png'']
              else
                r = Failure j ''UnknownPlotType''
                      (''Given plot type does not exist: '' @ py_str E ty)
                \<and> evs = [])"
proof -
  from assms obtain md j ty e2 where
    md: "json_loads E body = Inr md" and j: "subscript md ''job_id'' = Inr j"
    and ty: "py_get md ''type'' JNull = Inr ty"
    and run: "(if ty = JStr ''dot_plot'' then
         io_bind (io_pure (py_get md ''file_means'' JNull)) (\<lambda>file_means.
         io_bind (io_pure (py_get md ''file_pvalues'' JNull)) (\<lambda>file_pvalues.
         io_bind (io_pure (py_get md ''file_rows'' JNull)) (\<lambda>file_rows.
         io_bind (io_pure (py_get md ''file_columns'' JNull)) (\<lambda>file_columns.
           dot_plot_results E t file_means file_pvalues file_rows file_columns j))))
       else if ty = JStr ''heatmaps_plot'' then
         io_bind (io_pure (py_get md ''file_meta'' JNull)) (\<lambda>file_meta.
         io_bind (io_pure (py_get md ''file_pvalues'' JNull)) (\<lambda>file_pvalues.
           heatmaps_plot_results E t file_meta file_pvalues j))
       else
         io_pure (Inr (Failure j ''UnknownPlotType''
           (''Given plot type does not exist: '' @ py_str E ty)))) = (Inr r, e2)"
    and evs: "evs = e2"
    unfolding process_plot_def
    by (auto simp: io_pure_def elim!: io_bind_Inr_E)
  consider (dot) "ty = JStr ''dot_plot''" | (heat) "ty = JStr ''heatmaps_plot''"
    | (unknown) "ty \<noteq> JStr ''dot_plot''" "ty \<noteq> JStr ''heatmaps_plot''" by blast
  then show ?thesis
  proof cases
    case dot
    with run obtain a b c d where "dot_plot_results E t a b c d j = (Inr r, e2)"
      by (auto simp: io_pure_def elim!: io_bind_Inr_E)
    from dot_plot_results_Inr[OF this] md j ty dot evs show ?thesis by auto
  next
    case heat
    with run obtain a b where "heatmaps_plot_results E t a b j = (Inr r, e2)"
      by (auto simp: io_pure_def elim!: io_bind_Inr_E)
    from heatmaps_plot_results_Inr[OF this] md j ty heat evs show ?thesis by auto
  next
    case unknown
    with run md j ty evs show ?thesis by (auto simp: io_pure_def)
  qed
qed


subsection \<open>One iteration\<close>

lemma handler_Inr_job_id:
  assumes "handler E t body = (Inr r, evs)"
  shows "body_job_id E body = Inr (result_job_id r)"
proof (cases "jobs_queue_name E = ''plot_jobs''")
  case True
  with assms have "process_plot E t body = (Inr r, evs)" by (simp add: handler_def)
  from process_plot_Inr[OF this] show ?thesis
    by (auto simp: body_job_id_def split: if_splits)
next
  case False
  with assms have "process_method E t body = (Inr r, evs)" by (simp add: handler_def)
  from process_method_Inr[OF this] show ?thesis
    by (auto simp: body_job_id_def split: if_splits)
qed

lemma handler_Inr_shape:
  assumes "handler E t body = (Inr r, evs)"
  shows "is_success r \<or>
         (jobs_queue_name E = ''plot_jobs'' \<and> (\<exists>m. r = Failure (result_job_id r) ''UnknownPlotType'' m))"
proof (cases "jobs_queue_name E = ''plot_jobs''")
  case True
  with assms have "process_plot E t body = (Inr r, evs)" by (simp add: handler_def)
  from process_plot_Inr[OF this] True show ?thesis
    by (auto split: if_splits)
next
  case False
  with assms have "process_method E t body = (Inr r, evs)" by (simp add: handler_def)
  from process_method_Inr[OF this] show ?thesis
    by (auto split: if_splits)
qed

lemma handler_Inr_stored:
  assumes "handler E t body = (Inr (Success j files), evs)"
  shows "snd ` set files \<subseteq> set (stored_keys evs)"
proof (cases "jobs_queue_name E = ''plot_jobs''")
  case True
  with assms have "process_plot E t body = (Inr (Success j files), evs)" by (simp add: handler_def)
  from process_plot_Inr[OF this] show ?thesis
    by (auto split: if_splits)
next
  case False
  with assms have "process_method E t body = (Inr (Success j files), evs)" by (simp add: handler_def)
  from process_method_Inr[OF this] show ?thesis
    by (auto split: if_splits)
qed

lemma loop_body_idle:
  assumes "basic_get E (polls st) = None \<or> basic_get E (polls st) = Some []"
  shows "loop_body E st =
           Continue (st\<lparr>polls := Suc (polls st),
                        trace := trace st @ [BasicGet (basic_get E (polls st))]\<rparr>)"
  using assms by (auto simp: loop_body_def Let_def sleep_def emit_all_def)

lemma loop_body_job:
  assumes "basic_get E (polls st) = Some body" and "body \<noteq> []"
    and "body_job_id E body = Inr j" and "handler E (polls st) body = (out, evs)"
  shows "loop_body E st =
           Continue (st\<lparr>jobs_runned := Suc (jobs_runned st),
                        connection :=
                          (if rebuilds E st body then connections_made st else connection st),
                        connections_made :=
                          (if rebuilds E st body then Suc (connections_made st)
                           else connections_made st),
                        polls := Suc (polls st),
                        trace := trace st @ BasicGet (Some body) # evs @
                          (if rebuilds E st body
                           then [Connected (connections_made st),
                                 Published (connections_made st) (reply j out)]
                           else [Published (connection st) (reply j out)])\<rparr>)"
proof (cases out)
  case (Inr r)
  with assms show ?thesis
    by (simp add: loop_body_def Let_def sleep_def emit_all_def count_job_def basic_publish_def
          create_rabbit_connection_def rebuilds_def reply_def)
next
  case (Inl e)
  with assms show ?thesis
    by (simp add: loop_body_def Let_def sleep_def emit_all_def count_job_def basic_publish_def
          create_rabbit_connection_def reconnect_if_closed_def rebuilds_def reply_def)
qed

lemma loop_body_abort:
  assumes "basic_get E (polls st) = Some body" and "body \<noteq> []"
    and "body_job_id E body = Inl e'"
  shows "\<exists>e. fst (handler E (polls st) body) = Inl e \<and>
           loop_body E st =
             Abort e' (st\<lparr>trace := trace st @ BasicGet (Some body) # snd (handler E (polls st) body)\<rparr>)"
proof (cases "handler E (polls st) body")
  case (Pair out evs)
  show ?thesis
  proof (cases out)
    case (Inr r)
    with Pair handler_Inr_job_id[of E "polls st" body r evs] assms(3) show ?thesis by simp
  next
    case (Inl e)
    with Pair assms show ?thesis
      by (simp add: loop_body_def Let_def emit_all_def)
  qed
qed

lemma new_events_job:
  assumes "basic_get E (polls st) = Some body" and "body \<noteq> []"
    and "body_job_id E body = Inr j" and "handler E (polls st) body = (out, evs)"
  shows "new_events E st =
           BasicGet (Some body) # evs @
             (if rebuilds E st body
              then [Connected (connections_made st), Published (connections_made st) (reply j out)]
              else [Published (connection st) (reply j out)])"
  by (simp add: new_events_def loop_body_job[OF assms])

lemma new_events_abort:
  assumes "basic_get E (polls st) = Some body" and "body \<noteq> []"
    and "body_job_id E body = Inl e'"
  shows "new_events E st = BasicGet (Some body) # snd (handler E (polls st) body)"
  using loop_body_abort[OF assms] by (auto simp: new_events_def)

lemma new_events_idle:
  assumes "basic_get E (polls st) = None \<or> basic_get E (polls st) = Some []"
  shows "new_events E st = [BasicGet (basic_get E (polls st))]"
  by (simp add: new_events_def loop_body_idle[OF assms])

section \<open>The claims\<close>

lemma published_quiet_handler: "published (snd (handler E t body)) = []"
  by (rule quiet_published[OF handler_quiet])

text \<open>
  Claim C1, amended. For every dequeued message whose body decodes to a JSON object with
  a \<open>job_id\<close> field, the iteration ends normally and publishes exactly one Result,
  whose \<open>job_id\<close> is that field. When the handler returns, the Result is the response
  it returned: a Success, or, on a plot worker, the \<open>UnknownPlotType\<close> Failure that
  \<open>process_plot\<close> returns for a type it does not know. When the handler raises, the
  Result is the Failure built by the except block that catches the exception.
\<close>

theorem C1_one_result_per_job:
  assumes "basic_get E (polls st) = Some body" and "body \<noteq> []"
    and "body_job_id E body = Inr j"
  shows "\<exists>st' r. loop_body E st = Continue st'
           \<and> published (trace st') = published (trace st) @ [r]
           \<and> published (new_events E st) = [r]
           \<and> result_job_id r = j
           \<and> (case fst (handler E (polls st) body) of
                Inr job_response \<Rightarrow>
                  r = job_response \<and>
                  (is_success r \<or>
                   jobs_queue_name E = ''plot_jobs'' \<and> (\<exists>m. r = Failure j ''UnknownPlotType'' m))
              | Inl e \<Rightarrow>
                  r = (if classified e then Failure j (exn_str e) (error_message e)
                       else Failure j ''unknown_error'' []))"
proof -
  obtain out evs where h: "handler E (polls st) body = (out, evs)"
    by (cases "handler E (polls st) body")
  have q: "published evs = []"
    using published_quiet_handler[of E "polls st" body] h by simp
  note step = loop_body_job[OF assms h]
  note new = new_events_job[OF assms h]
  have p1: "published (trace (step_state (loop_body E st))) = published (trace st) @ [reply j out]"
    by (simp add: step published_append q)
  have p2: "published (new_events E st) = [reply j out]"
    by (simp add: new published_append q)
  have id: "result_job_id (reply j out) = j"
  proof (cases out)
    case (Inl e)
    then show ?thesis by (simp add: reply_def)
  next
    case (Inr r)
    with handler_Inr_job_id[of E "polls st" body r evs] h assms(3) show ?thesis
      by (simp add: reply_def)
  qed
  have shape: "case out of
      Inr job_response \<Rightarrow>
        reply j out = job_response \<and>
        (is_success (reply j out) \<or>
         jobs_queue_name E = ''plot_jobs'' \<and> (\<exists>m. reply j out = Failure j ''UnknownPlotType'' m))
    | Inl e \<Rightarrow>
        reply j out = (if classified e then Failure j (exn_str e) (error_message e)
                       else Failure j ''unknown_error'' [])"
  proof (cases out)
    case (Inl e)
    then show ?thesis by (simp add: reply_def)
  next
    case (Inr r)
    from handler_Inr_shape[of E "polls st" body r evs] h Inr id show ?thesis
      by (auto simp: reply_def)
  qed
  from step p1 p2 id shape h show ?thesis
    by (intro exI[of _ "step_state (loop_body E st)"] exI[of _ "reply j out"]) simp
qed

lemma eval_method_job_id: "body_job_id (method_env n) ''job'' = Inr (JStr ''7'')"
  by (simp add: body_job_id_def method_env_def method_job_def idle_env_def)

lemma eval_handler_method0:
  "handler (method_env 0) 0 ''job'' =
     (Inr (Success (JStr ''7'')
        [(''means'', ''means_simple_7.txt''),
         (''significant_means'', ''significant_means_7.txt''),
         (''deconvoluted'', ''deconvoluted_simple_7.txt'')]),
      [Method [[''bytes'']] [[''bytes'']]
         \<lparr>threshold = Finite 0.1, result_precision = 3, subsampler = None\<rparr>,
       S3Put ''means_simple_7.txt'' (Csv [[''m'']]),
       S3Put ''significant_means_7.txt'' (Csv [[''s'']]),
       S3Put ''deconvoluted_simple_7.txt'' (Csv [[''d'']])])"
  by (simp add: handler_def process_method_def method_env_def method_job_def idle_env_def
        io_bind_def io_pure_def io_emit_def read_data_from_s3_def make_subsampler_def
        non_statistical_analysis_def write_data_in_s3_def Let_def)


lemmas eval_defs = handler_def process_method_def process_plot_def io_bind_def io_pure_def
  io_emit_def read_data_from_s3_def make_subsampler_def non_statistical_analysis_def
  statistical_analysis_def write_data_in_s3_def write_image_to_s3_def from_s3_to_temp_def
  dot_plot_results_def heatmaps_plot_results_def body_job_id_def Let_def

lemmas env_defs = idle_env_def method_env_def method_job_def failing_store_env_def
  anonymous_env_def plot_job_def plot_env_def half_plot_env_def prefixed_plot_env_def

lemmas loop_defs = new_events_def loop_body_def emit_all_def sleep_def count_job_def
  basic_publish_def create_rabbit_connection_def reconnect_if_closed_def classified_def
  error_message_def attr_text_def initial_state_def builtin_error_def new_PlotException_def

text \<open>
  The hypotheses of C1 hold for the method job \<open>"7"\<close> with 0 iterations, and the one
  Result published for it is a Success.
\<close>

theorem C1_one_result_per_job_witness:
  "basic_get (method_env 0) (polls initial_state) = Some ''job'' \<and> ''job'' \<noteq> []
   \<and> body_job_id (method_env 0) ''job'' = Inr (JStr ''7'')
   \<and> (\<exists>st' r. loop_body (method_env 0) initial_state = Continue st'
         \<and> published (trace st') = published (trace initial_state) @ [r]
         \<and> published (new_events (method_env 0) initial_state) = [r]
         \<and> result_job_id r = JStr ''7''
         \<and> r = Success (JStr ''7'')
                 [(''means'', ''means_simple_7.txt''),
                  (''significant_means'', ''significant_means_7.txt''),
                  (''deconvoluted'', ''deconvoluted_simple_7.txt'')])"
proof -
  have h1: "basic_get (method_env 0) (polls initial_state) = Some ''job''"
    by (simp add: env_defs initial_state_def)
  have h2: "''job'' \<noteq> []" by simp
  have h3: "body_job_id (method_env 0) ''job'' = Inr (JStr ''7'')"
    by (simp add: env_defs eval_defs)
  have h4: "polls initial_state = 0" by (simp add: initial_state_def)
  have h5: "fst (handler (method_env 0) 0 ''job'') =
     Inr (Success (JStr ''7'')
        [(''means'', ''means_simple_7.txt''),
         (''significant_means'', ''significant_means_7.txt''),
         (''deconvoluted'', ''deconvoluted_simple_7.txt'')])"
    by (simp add: env_defs eval_defs)
  from C1_one_result_per_job[OF h1 h2 h3] h1 h2 h3 h4 h5 show ?thesis
    by auto
qed

text \<open>
  Claim C1 as stated fails: on a plot job of unknown type the handler returns without
  raising, and the Result published for it is a Failure, not a Success.
\<close>

theorem C1_counterexample:
  "fst (handler (plot_env ''unknown_type'') 0 ''job'') =
     Inr (Failure (JStr ''7'') ''UnknownPlotType''
            ''Given plot type does not exist: unknown_type'')
   \<and> published (new_events (plot_env ''unknown_type'') initial_state) =
     [Failure (JStr ''7'') ''UnknownPlotType''
        ''Given plot type does not exist: unknown_type'']"
  by (simp add: env_defs eval_defs loop_defs)

text \<open>
  Claim C2 at a payload without \<open>job_id\<close>: the handler raises KeyError, the generic
  except block catches it and raises KeyError again while it builds the error response,
  and the worker ends. No Result is published, and the job that the next poll would
  have returned is never taken.
\<close>

theorem C2_missing_job_id_aborts:
  "main anonymous_env 3 =
     Crashed (builtin_error ''KeyError'' (CHR 0x27 # ''job_id'' @ [CHR 0x27]))
       \<lparr>jobs_runned = 0, connection = 0, connections_made = 1, polls = 0,
        trace = [Connected 0, BasicGet (Some ''job'')]\<rparr>
   \<and> published (trace (final_state (main anonymous_env 3))) = []
   \<and> basic_get anonymous_env 1 = Some ''job''"
  by (simp add: main_def numeral_3_eq_3 consume_more_jobs_def env_defs eval_defs loop_defs)


subsection \<open>The batch cap\<close>

lemma loop_body_counts:
  assumes "loop_body E st = Continue st'"
    and "length (jobs_taken (trace st)) = jobs_runned st"
  shows "length (jobs_taken (trace st')) = jobs_runned st'"
    and "jobs_runned st' \<le> Suc (jobs_runned st)"
    and "polls st' = Suc (polls st)"
proof -
  consider (idle) "basic_get E (polls st) = None \<or> basic_get E (polls st) = Some []"
    | (job) body where "basic_get E (polls st) = Some body" "body \<noteq> []"
    by (cases "basic_get E (polls st)") auto
  then have "length (jobs_taken (trace st')) = jobs_runned st'
      \<and> jobs_runned st' \<le> Suc (jobs_runned st) \<and> polls st' = Suc (polls st)"
  proof cases
    case idle
    from loop_body_idle[OF idle] assms idle show ?thesis
      by (auto simp: jobs_taken_append)
  next
    case job
    obtain out evs where h: "handler E (polls st) body = (out, evs)"
      by (cases "handler E (polls st) body")
    have q: "jobs_taken evs = []"
      using quiet_jobs_taken[OF handler_quiet[of E "polls st" body]] h by simp
    show ?thesis
    proof (cases "body_job_id E body")
      case (Inl e')
      from loop_body_abort[OF job Inl] assms(1) show ?thesis by auto
    next
      case (Inr j)
      from loop_body_job[OF job Inr h] assms job q show ?thesis
        by (auto simp: jobs_taken_append)
    qed
  qed
  then show "length (jobs_taken (trace st')) = jobs_runned st'"
    and "jobs_runned st' \<le> Suc (jobs_runned st)"
    and "polls st' = Suc (polls st)" by simp_all
qed

lemma loop_body_abort_counts:
  assumes "loop_body E st = Abort e st'"
    and "length (jobs_taken (trace st)) = jobs_runned st"
  shows "length (jobs_taken (trace st')) = Suc (jobs_runned st)"
proof -
  consider (idle) "basic_get E (polls st) = None \<or> basic_get E (polls st) = Some []"
    | (job) body where "basic_get E (polls st) = Some body" "body \<noteq> []"
    by (cases "basic_get E (polls st)") auto
  then show ?thesis
  proof cases
    case idle
    from loop_body_idle[OF idle] assms show ?thesis by simp
  next
    case job
    obtain out evs where h: "handler E (polls st) body = (out, evs)"
      by (cases "handler E (polls st) body")
    have q: "jobs_taken evs = []"
      using quiet_jobs_taken[OF handler_quiet[of E "polls st" body]] h by simp
    show ?thesis
    proof (cases "body_job_id E body")
      case (Inl e')
      from loop_body_abort[OF job Inl] assms job q h show ?thesis
        by (auto simp: jobs_taken_append)
    next
      case (Inr j)
      from loop_body_job[OF job Inr h] assms(1) show ?thesis by simp
    qed
  qed
qed

lemma worker_loop_cap:
  assumes "length (jobs_taken (trace st)) = jobs_runned st" and "jobs_runned st \<le> 3"
  shows "length (jobs_taken (trace (final_state (worker_loop E n st)))) \<le> 3
         \<and> (\<forall>st'. worker_loop E n st = Exited st' \<longrightarrow>
               jobs_runned st' = 3 \<and> length (jobs_taken (trace st')) = 3)"
  using assms
proof (induction n arbitrary: st)
  case 0
  then show ?case by (auto simp: consume_more_jobs_def)
next
  case (Suc n)
  show ?case
  proof (cases "jobs_runned st < 3")
    case False
    with Suc.prems show ?thesis by (auto simp: consume_more_jobs_def)
  next
    case True
    show ?thesis
    proof (cases "loop_body E st")
      case (Abort e st')
      from loop_body_abort_counts[OF Abort Suc.prems(1)] True Abort show ?thesis
        by (simp add: consume_more_jobs_def)
    next
      case (Continue st')
      from loop_body_counts[OF Continue Suc.prems(1)] True
      have "length (jobs_taken (trace st')) = jobs_runned st'" "jobs_runned st' \<le> 3"
        by simp_all
      from Suc.IH[OF this] True Continue show ?thesis
        by (simp add: consume_more_jobs_def)
    qed
  qed
qed

lemma worker_loop_idle:
  assumes "\<forall>t. basic_get E t = None" and "jobs_runned st < 3"
  shows "\<exists>st'. worker_loop E n st = Running st'"
  using assms(2)
proof (induction n arbitrary: st)
  case 0
  then show ?case by (simp add: consume_more_jobs_def)
next
  case (Suc n)
  from assms(1) have idle: "basic_get E (polls st) = None \<or> basic_get E (polls st) = Some []"
    by simp
  let ?st' = "st\<lparr>polls := Suc (polls st),
                  trace := trace st @ [BasicGet (basic_get E (polls st))]\<rparr>"
  from Suc.prems have "jobs_runned ?st' < 3" by simp
  from Suc.IH[OF this] obtain st'' where "worker_loop E n ?st' = Running st''" by blast
  with loop_body_idle[OF idle] Suc.prems show ?case
    by (simp add: consume_more_jobs_def)
qed

lemma loop_body_delivers:
  assumes "delivers E (polls st)"
  shows "\<exists>st'. loop_body E st = Continue st' \<and> jobs_runned st' = Suc (jobs_runned st)
           \<and> polls st' = Suc (polls st)"
proof -
  from assms obtain body j where b: "basic_get E (polls st) = Some body" "body \<noteq> []"
    "body_job_id E body = Inr j"
    by (auto simp: delivers_def split: option.splits sum.splits)
  obtain out evs where h: "handler E (polls st) body = (out, evs)"
    by (cases "handler E (polls st) body")
  from loop_body_job[OF b h] show ?thesis by simp
qed

lemma worker_loop_busy:
  assumes "\<forall>t. polls st \<le> t \<and> t < polls st + (3 - jobs_runned st) \<longrightarrow> delivers E t"
    and "3 - jobs_runned st \<le> n"
  shows "\<exists>st'. worker_loop E n st = Exited st'"
  using assms
proof (induction n arbitrary: st)
  case 0
  then show ?case by (simp add: consume_more_jobs_def)
next
  case (Suc n)
  show ?case
  proof (cases "jobs_runned st < 3")
    case False
    then show ?thesis by (simp add: consume_more_jobs_def)
  next
    case True
    with Suc.prems(1) have "delivers E (polls st)" by simp
    from loop_body_delivers[OF this] obtain st' where
      st': "loop_body E st = Continue st'" "jobs_runned st' = Suc (jobs_runned st)"
        "polls st' = Suc (polls st)" by blast
    from Suc.prems(1) st' True
    have "\<forall>t. polls st' \<le> t \<and> t < polls st' + (3 - jobs_runned st') \<longrightarrow> delivers E t"
      by auto
    moreover from Suc.prems(2) st' True have "3 - jobs_runned st' \<le> n" by simp
    ultimately obtain st'' where "worker_loop E n st' = Exited st''"
      using Suc.IH by blast
    with st' True show ?thesis by (simp add: consume_more_jobs_def)
  qed
qed

text \<open>
  Claim C3, amended. Whatever the queue holds, at most 3 messages are handed to a
  handler in one run, and the loop is left normally only when \<open>jobs_runned\<close> is 3: it
  exits within three iterations when each of the first three polls delivers a job, and
  an empty poll is not counted, so a worker whose queue stays empty is still polling
  after any number of iterations.
\<close>

theorem C3_batch_cap:
  "length (jobs_taken (trace (final_state (main E n)))) \<le> 3
   \<and> (\<forall>st. main E n = Exited st \<longrightarrow> jobs_runned st = 3)
   \<and> ((\<forall>t<3. delivers E t) \<and> 3 \<le> n \<longrightarrow> (\<exists>st. main E n = Exited st))
   \<and> ((\<forall>t. basic_get E t = None) \<longrightarrow> (\<exists>st. main E n = Running st))"
proof -
  have init: "length (jobs_taken (trace initial_state)) = jobs_runned initial_state"
    "jobs_runned initial_state \<le> 3" "jobs_runned initial_state < 3"
    "polls initial_state = 0" "jobs_runned initial_state = 0"
    by (simp_all add: initial_state_def)
  from worker_loop_cap[OF init(1,2), of E n]
  have a: "length (jobs_taken (trace (final_state (main E n)))) \<le> 3"
    and b: "\<forall>st. main E n = Exited st \<longrightarrow> jobs_runned st = 3"
    by (simp_all add: main_def)
  have c: "(\<forall>t<3. delivers E t) \<and> 3 \<le> n \<longrightarrow> (\<exists>st. main E n = Exited st)"
  proof
    assume h: "(\<forall>t<3. delivers E t) \<and> 3 \<le> n"
    then have "\<forall>t. polls initial_state \<le> t
        \<and> t < polls initial_state + (3 - jobs_runned initial_state) \<longrightarrow> delivers E t"
      by (simp add: init)
    moreover from h have "3 - jobs_runned initial_state \<le> n" by (simp add: init)
    ultimately show "\<exists>st. main E n = Exited st"
      unfolding main_def by (rule worker_loop_busy)
  qed
  have d: "(\<forall>t. basic_get E t = None) \<longrightarrow> (\<exists>st. main E n = Running st)"
    using worker_loop_idle[OF _ init(3), of E n] by (auto simp: main_def)
  from a b c d show ?thesis by blast
qed

text \<open>
  C3 at a queue that holds a job at every poll, run for 5 iterations (the worker exits
  with 3 jobs taken), and at a queue that stays empty (the worker is still polling).
\<close>

theorem C3_batch_cap_witness:
  "delivers (method_env 0) 0 \<and> delivers (method_env 0) 1 \<and> delivers (method_env 0) 2
   \<and> basic_get (method_env 0) 3 = Some ''job''
   \<and> (\<exists>st. main (method_env 0) 5 = Exited st \<and> jobs_runned st = 3
         \<and> length (jobs_taken (trace st)) \<le> 3)
   \<and> (\<forall>t. basic_get idle_env t = None)
   \<and> (\<exists>st. main idle_env 5 = Running st)"
proof -
  have h1: "\<forall>t<3. delivers (method_env 0) t"
    by (simp add: delivers_def env_defs eval_defs)
  have h2: "\<forall>t. basic_get idle_env t = None"
    by (simp add: idle_env_def)
  have h3: "basic_get (method_env 0) 3 = Some ''job''"
    by (simp add: env_defs)
  from C3_batch_cap[of "method_env 0" 5] C3_batch_cap[of idle_env 5] h1 h2 h3 show ?thesis
    by auto
qed

text \<open>
  Claim C3 as stated fails: on a queue that stays empty the loop has not stopped after
  any number of iterations.
\<close>

theorem C3_counterexample:
  "\<forall>n. \<exists>st. main idle_env n = Running st \<and> jobs_runned st = 0 \<and> polls st = n"
proof
  fix n
  have "\<And>st. jobs_runned st = 0 \<Longrightarrow>
     \<exists>st'. worker_loop idle_env n st = Running st' \<and> jobs_runned st' = 0
       \<and> polls st' = polls st + n"
  proof (induction n)
    case 0
    then show ?case by (simp add: consume_more_jobs_def)
  next
    case (Suc n)
    have idle: "basic_get idle_env (polls st) = None \<or> basic_get idle_env (polls st) = Some []"
      by (simp add: idle_env_def)
    let ?st' = "st\<lparr>polls := Suc (polls st),
                    trace := trace st @ [BasicGet (basic_get idle_env (polls st))]\<rparr>"
    from Suc.prems have "jobs_runned ?st' = 0" by simp
    from Suc.IH[OF this] loop_body_idle[OF idle] Suc.prems show ?case
      by (auto simp: consume_more_jobs_def)
  qed
  from this[of initial_state] show "\<exists>st. main idle_env n = Running st \<and> jobs_runned st = 0 \<and> polls st = n"
    by (simp add: main_def initial_state_def)
qed


subsection \<open>File names of the method results\<close>

lemma published_new_events_job:
  assumes "basic_get E (polls st) = Some body" and "body \<noteq> []"
    and "body_job_id E body = Inr j"
  shows "published (new_events E st) = [reply j (fst (handler E (polls st) body))]"
proof -
  obtain out evs where h: "handler E (polls st) body = (out, evs)"
    by (cases "handler E (polls st) body")
  have q: "published evs = []"
    using published_quiet_handler[of E "polls st" body] h by simp
  from new_events_job[OF assms h] q h show ?thesis
    by (simp add: published_append)
qed

lemma published_new_events_abort:
  assumes "basic_get E (polls st) = Some body" and "body \<noteq> []"
    and "body_job_id E body = Inl e'"
  shows "published (new_events E st) = []"
  using new_events_abort[OF assms] published_quiet_handler[of E "polls st" body]
  by simp

lemma reply_Success:
  assumes "reply j out = Success j' files"
  shows "out = Inr (Success j' files)"
  using assms by (cases out) (auto simp: reply_def split: if_splits)

text \<open>
  Claim C4, amended. The Success Result published for a method job has as the keys of
  its \<open>files\<close> mapping the logical names and as its values the storage keys, which end
  in \<open>.txt\<close>. With iterations 0 the mapping is \<open>means\<close>, \<open>significant_means\<close>,
  \<open>deconvoluted\<close> to \<open>means_simple_<id>.txt\<close>, \<open>significant_means_<id>.txt\<close>,
  \<open>deconvoluted_simple_<id>.txt\<close>. With iterations above 0 it is \<open>pvalues\<close>,
  \<open>means\<close>, \<open>significant_means\<close>, \<open>deconvoluted\<close> to \<open>pvalues_simple_<id>.txt\<close>,
  \<open>means_simple_<id>.txt\<close>, \<open>significant_means_simple_<id>.txt\<close>,
  \<open>deconvoluted_simple_<id>.txt\<close>.
\<close>

theorem C4_method_files:
  assumes "jobs_queue_name E \<noteq> ''plot_jobs''"
    and "basic_get E (polls st) = Some body" and "body \<noteq> []"
    and "json_loads E body = Inr md"
    and "subscript md ''iterations'' = Inr (JInt n)"
    and "published (new_events E st) = [Success j files]"
  shows "subscript md ''job_id'' = Inr j
     \<and> (n = 0 \<longrightarrow> files =
          [(''means'', ''means_simple_'' @ py_str E j @ ''.txt''),
           (''significant_means'', ''significant_means_'' @ py_str E j @ ''.txt''),
           (''deconvoluted'', ''deconvoluted_simple_'' @ py_str E j @ ''.txt'')])
     \<and> (0 < n \<longrightarrow> files =
          [(''pvalues'', ''pvalues_simple_'' @ py_str E j @ ''.txt''),
           (''means'', ''means_simple_'' @ py_str E j @ ''.txt''),
           (''significant_means'', ''significant_means_simple_'' @ py_str E j @ ''.txt''),
           (''deconvoluted'', ''deconvoluted_simple_'' @ py_str E j @ ''.txt'')])"
proof (cases "body_job_id E body")
  case (Inl e')
  from published_new_events_abort[OF assms(2,3) Inl] assms(6) show ?thesis by simp
next
  case (Inr j')
  obtain out evs where h: "handler E (polls st) body = (out, evs)"
    by (cases "handler E (polls st) body")
  from published_new_events_job[OF assms(2,3) Inr] assms(6) h
  have "reply j' out = Success j files" by simp
  then have "out = Inr (Success j files)" by (rule reply_Success)
  with h assms(1) have "process_method E (polls st) body = (Inr (Success j files), evs)"
    by (simp add: handler_def)
  from process_method_Inr[OF this] assms(4,5) show ?thesis
    by (auto split: if_splits)
qed

text \<open>
  The hypotheses of C4 hold for the method job \<open>"7"\<close> with 0 and with 10 iterations.
\<close>

theorem C4_method_files_witness:
  "published (new_events (method_env 0) initial_state) =
     [Success (JStr ''7'')
        [(''means'', ''means_simple_7.txt''),
         (''significant_means'', ''significant_means_7.txt''),
         (''deconvoluted'', ''deconvoluted_simple_7.txt'')]]
   \<and> published (new_events (method_env 10) initial_state) =
     [Success (JStr ''7'')
        [(''pvalues'', ''pvalues_simple_7.txt''),
         (''means'', ''means_simple_7.txt''),
         (''significant_means'', ''significant_means_simple_7.txt''),
         (''deconvoluted'', ''deconvoluted_simple_7.txt'')]]"
proof -
  have q: "jobs_queue_name (method_env n) \<noteq> ''plot_jobs''" for n
    by (simp add: env_defs)
  have g: "basic_get (method_env n) (polls initial_state) = Some ''job''" for n
    by (simp add: env_defs)
  have l: "json_loads (method_env n) ''job'' = Inr (method_job n)" for n
    by (simp add: env_defs)
  have i: "subscript (method_job n) ''iterations'' = Inr (JInt n)" for n
    by (simp add: method_job_def)
  have b: "''job'' \<noteq> []" by simp
  obtain f0 where p0: "published (new_events (method_env 0) initial_state) = [Success (JStr ''7'') f0]"
    by (simp add: env_defs eval_defs loop_defs)
  obtain f10 where p10: "published (new_events (method_env 10) initial_state) = [Success (JStr ''7'') f10]"
    by (simp add: env_defs eval_defs loop_defs)
  from C4_method_files[OF q g b l i p0] C4_method_files[OF q g b l i p10] p0 p10
  show ?thesis by simp
qed

text \<open>
  Claim C4 as stated fails. The keys of the \<open>files\<close> mapping are the logical names, and
  the storage keys end in \<open>.txt\<close>; with 10 iterations the storage key of the
  significant means is \<open>significant_means_simple_7.txt\<close>, so the mapping of the
  statistical path does not extend that of the other path by \<open>pvalues_simple_7\<close>:
  \<open>significant_means_7\<close> occurs in it neither as a key nor as a value, with or
  without the suffix.
\<close>

theorem C4_counterexample:
  "\<exists>files. published (new_events (method_env 10) initial_state) = [Success (JStr ''7'') files]
     \<and> map fst files = [''pvalues'', ''means'', ''significant_means'', ''deconvoluted'']
     \<and> map snd files =
         [''pvalues_simple_7.txt'', ''means_simple_7.txt'',
          ''significant_means_simple_7.txt'', ''deconvoluted_simple_7.txt'']
     \<and> ''significant_means_7'' \<notin> set (map fst files) \<union> set (map snd files)
     \<and> ''significant_means_7.txt'' \<notin> set (map fst files) \<union> set (map snd files)"
  by (simp add: env_defs eval_defs loop_defs)

subsection \<open>Connections\<close>

text \<open>
  Claim C5, amended. A handled job adds to the trace the poll, the handler's events and
  the publication of its Result, in that order. When the handler returned, a new
  connection is made immediately before the publication without asking whether the
  current one is closed, and the Result goes out on the new connection. When the handler
  raised, the current connection is asked: if it reports closed a new one is made
  immediately before the publication, otherwise the current one is kept and used. A
  poll that hands nothing to a handler (an empty queue, or a message with an empty body)
  makes no connection, publishes nothing and leaves the connection as it is.
\<close>

theorem C5_connection_rebuild:
  "(basic_get E (polls st) = Some body \<and> body \<noteq> [] \<and> body_job_id E body = Inr j \<longrightarrow>
      (\<exists>r. new_events E st =
           BasicGet (Some body) # snd (handler E (polls st) body) @
             (case fst (handler E (polls st) body) of
                Inr job_response \<Rightarrow>
                  [Connected (connections_made st), Published (connections_made st) r]
              | Inl e \<Rightarrow>
                  if is_closed E (polls st) (connection st)
                  then [Connected (connections_made st), Published (connections_made st) r]
                  else [Published (connection st) r]))
      \<and> connection (step_state (loop_body E st)) =
             (case fst (handler E (polls st) body) of
                Inr job_response \<Rightarrow> connections_made st
              | Inl e \<Rightarrow>
                  if is_closed E (polls st) (connection st) then connections_made st
                  else connection st))
   \<and> (basic_get E (polls st) = None \<or> basic_get E (polls st) = Some [] \<longrightarrow>
        new_events E st = [BasicGet (basic_get E (polls st))]
        \<and> connection (step_state (loop_body E st)) = connection st
        \<and> connections_made (step_state (loop_body E st)) = connections_made st)"
proof (intro conjI impI)
  assume "basic_get E (polls st) = Some body \<and> body \<noteq> [] \<and> body_job_id E body = Inr j"
  then have job: "basic_get E (polls st) = Some body" "body \<noteq> []" "body_job_id E body = Inr j"
    by simp_all
  obtain out evs where h: "handler E (polls st) body = (out, evs)"
    by (cases "handler E (polls st) body")
  from new_events_job[OF job h] h
  show "\<exists>r. new_events E st =
           BasicGet (Some body) # snd (handler E (polls st) body) @
             (case fst (handler E (polls st) body) of
                Inr job_response \<Rightarrow>
                  [Connected (connections_made st), Published (connections_made st) r]
              | Inl e \<Rightarrow>
                  if is_closed E (polls st) (connection st)
                  then [Connected (connections_made st), Published (connections_made st) r]
                  else [Published (connection st) r])"
    by (cases out) (auto simp: rebuilds_def)
  from loop_body_job[OF job h] h
  show "connection (step_state (loop_body E st)) =
             (case fst (handler E (polls st) body) of
                Inr job_response \<Rightarrow> connections_made st
              | Inl e \<Rightarrow>
                  if is_closed E (polls st) (connection st) then connections_made st
                  else connection st)"
    by (cases out) (auto simp: rebuilds_def)
next
  assume idle: "basic_get E (polls st) = None \<or> basic_get E (polls st) = Some []"
  show "new_events E st = [BasicGet (basic_get E (polls st))]"
    by (rule new_events_idle[OF idle])
  show "connection (step_state (loop_body E st)) = connection st"
    by (simp add: loop_body_idle[OF idle])
  show "connections_made (step_state (loop_body E st)) = connections_made st"
    by (simp add: loop_body_idle[OF idle])
qed

text \<open>
  The hypotheses of C5 hold when the object store refuses the reads of the method job
  \<open>"7"\<close> (the handler raises, the connection is open, and the Failure is published on
  the connection made at start) and on a queue that is empty.
\<close>

theorem C5_connection_rebuild_witness:
  "basic_get failing_store_env (polls initial_state) = Some ''job'' \<and> ''job'' \<noteq> []
   \<and> body_job_id failing_store_env ''job'' = Inr (JStr ''7'')
   \<and> new_events failing_store_env initial_state =
       [BasicGet (Some ''job''), Published 0 (Failure (JStr ''7'') ''unknown_error'' [])]
   \<and> connection (step_state (loop_body failing_store_env initial_state)) = 0
   \<and> basic_get idle_env (polls initial_state) = None
   \<and> new_events idle_env initial_state = [BasicGet None]
   \<and> connection (step_state (loop_body idle_env initial_state)) = 0"
proof -
  have h1: "basic_get failing_store_env (polls initial_state) = Some ''job''"
    by (simp add: env_defs)
  have h2: "''job'' \<noteq> []" by simp
  have h3: "body_job_id failing_store_env ''job'' = Inr (JStr ''7'')"
    by (simp add: env_defs eval_defs)
  have h4: "handler failing_store_env (polls initial_state) ''job'' =
      (Inl (builtin_error ''ClientError'' ''NoSuchKey''), [])"
    by (simp add: env_defs eval_defs)
  have h5: "\<not> is_closed failing_store_env (polls initial_state) (connection initial_state)"
    by (simp add: env_defs)
  have h6: "connection initial_state = 0" by (simp add: initial_state_def)
  have h7: "published (new_events failing_store_env initial_state) =
      [Failure (JStr ''7'') ''unknown_error'' []]"
    by (simp add: published_new_events_job[OF h1 h2 h3] h4 reply_def classified_def
          builtin_error_def)
  have h8: "basic_get idle_env (polls initial_state) = None"
    by (simp add: env_defs)
  from C5_connection_rebuild[of failing_store_env initial_state "''job''" "JStr ''7''"]
    C5_connection_rebuild[of idle_env initial_state]
    h1 h2 h3 h4 h5 h6 h7 h8
  show ?thesis by auto
qed

text \<open>
  Claim C5 as stated fails: no connection ever reports closed, and still the job that
  the handler completes is published on a second connection, made for it.
\<close>

theorem C5_counterexample:
  "is_closed (method_env 0) = (\<lambda>t c. False)
   \<and> connection initial_state = 0
   \<and> connects (new_events (method_env 0) initial_state) = [1]
   \<and> connection (step_state (loop_body (method_env 0) initial_state)) = 1"
  by (simp add: env_defs eval_defs loop_defs)

subsection \<open>Error responses\<close>

text \<open>
  Claim C6. For every plot job whose declared type is neither \<open>"dot_plot"\<close> nor
  \<open>"heatmaps_plot"\<close> (\<open>None\<close> when the field is absent), the one Result published is a
  Failure with error id \<open>UnknownPlotType\<close> and the message
  \<open>Given plot type does not exist: \<close> followed by the type as \<open>str.format\<close> writes it,
  which for a string is the string itself.
\<close>

theorem C6_unknown_plot_type:
  assumes "jobs_queue_name E = ''plot_jobs''"
    and "basic_get E (polls st) = Some body" and "body \<noteq> []"
    and "json_loads E body = Inr md"
    and "subscript md ''job_id'' = Inr j"
    and "py_get md ''type'' JNull = Inr ty"
    and "ty \<noteq> JStr ''dot_plot''" and "ty \<noteq> JStr ''heatmaps_plot''"
  shows "published (new_events E st) =
           [Failure j ''UnknownPlotType''
              (''Given plot type does not exist: '' @ py_str E ty)]
         \<and> (\<forall>s. ty = JStr s \<longrightarrow> py_str E ty = s)"
proof -
  from assms(4,5) have id: "body_job_id E body = Inr j"
    by (simp add: body_job_id_def)
  from assms(1,4-8) have "handler E (polls st) body =
      (Inr (Failure j ''UnknownPlotType''
              (''Given plot type does not exist: '' @ py_str E ty)), [])"
    by (simp add: handler_def process_plot_def io_bind_pure) (simp add: io_pure_def)
  with published_new_events_job[OF assms(2,3) id] show ?thesis
    by (auto simp: reply_def)
qed

text \<open>The hypotheses of C6 hold for the plot job \<open>"7"\<close> of type \<open>unknown_type\<close>.\<close>

theorem C6_unknown_plot_type_witness:
  "published (new_events (plot_env ''unknown_type'') initial_state) =
     [Failure (JStr ''7'') ''UnknownPlotType''
        ''Given plot type does not exist: unknown_type'']"
proof -
  have "published (new_events (plot_env ''unknown_type'') initial_state) =
           [Failure (JStr ''7'') ''UnknownPlotType''
              (''Given plot type does not exist: ''
                 @ py_str (plot_env ''unknown_type'') (JStr ''unknown_type''))]
         \<and> (\<forall>s. JStr ''unknown_type'' = JStr s \<longrightarrow>
               py_str (plot_env ''unknown_type'') (JStr ''unknown_type'') = s)"
    by (rule C6_unknown_plot_type[where body = "''job''" and md = "plot_job ''unknown_type''"])
       (simp_all add: env_defs)
  then show ?thesis by simp
qed

text \<open>
  What the generic except block publishes: the Failure with error id \<open>unknown_error\<close>
  and the empty message under the job's id, and nothing when the id cannot be read.
\<close>

lemma unclassified_error_published:
  assumes "basic_get E (polls st) = Some body" and "body \<noteq> []"
    and "handler E (polls st) body = (Inl e, evs)"
    and "\<not> classified e"
  shows "published (new_events E st) =
           (case body_job_id E body of
              Inr j \<Rightarrow> [Failure j ''unknown_error'' []]
            | Inl e' \<Rightarrow> [])"
proof (cases "body_job_id E body")
  case (Inl e')
  with published_new_events_abort[OF assms(1,2) Inl] show ?thesis by simp
next
  case (Inr j)
  with published_new_events_job[OF assms(1,2) Inr] assms(3,4) show ?thesis
    by (simp add: reply_def)
qed

text \<open>
  Claim C7 at a payload without \<open>job_id\<close>. The handler raises KeyError, which is none
  of the seven classified exceptions, so the generic except block is entered; it raises
  again while it reads the job's id, and the iteration ends the worker without
  publishing the \<open>unknown_error\<close> Failure, or anything else.
\<close>

theorem C7_unclassified_error_unpublished:
  "handler anonymous_env (polls initial_state) ''job'' =
      (Inl (builtin_error ''KeyError'' (CHR 0x27 # ''job_id'' @ [CHR 0x27])), [])
   \<and> \<not> classified (builtin_error ''KeyError'' (CHR 0x27 # ''job_id'' @ [CHR 0x27]))
   \<and> loop_body anonymous_env initial_state =
       Abort (builtin_error ''KeyError'' (CHR 0x27 # ''job_id'' @ [CHR 0x27]))
         (initial_state\<lparr>trace := [Connected 0, BasicGet (Some ''job'')]\<rparr>)
   \<and> published (new_events anonymous_env initial_state) = []"
  by (simp add: env_defs eval_defs loop_defs)

subsection \<open>Choice of the analysis\<close>

lemma launcher_calls_writes:
  "launcher_calls (snd (io_bind (write_data_in_s3 E t d k) f)) =
     (case s3_put_object E t k (Csv d) of
        Some e \<Rightarrow> []
      | None \<Rightarrow> launcher_calls (snd (f ())))"
  by (cases "f ()")
     (simp add: io_bind_def write_data_in_s3_def io_emit_def split: option.splits)

lemma launcher_calls_Statistical:
  "launcher_calls (snd (io_bind (io_emit (Statistical m c a)) f)) =
     Statistical m c a # launcher_calls (snd (f ()))"
  by (cases "f ()") (simp add: io_bind_def io_emit_def)

lemma launcher_calls_Method:
  "launcher_calls (snd (io_bind (io_emit (Method m c a)) f)) =
     Method m c a # launcher_calls (snd (f ()))"
  by (cases "f ()") (simp add: io_bind_def io_emit_def)

lemma launcher_calls_pure: "launcher_calls (snd (io_pure r)) = []"
  by (simp add: io_pure_def)

lemma statistical_analysis_calls:
  assumes "subscript md ''threshold'' = Inr vt" and "py_float E vt = Inr th"
    and "subscript md ''iterations'' = Inr vi" and "py_int E vi = Inr n"
    and "subscript md ''result_precision'' = Inr vp" and "py_int E vp = Inr p"
    and "py_get md ''pvalue'' (JFloat (Finite 0.05)) = Inr vv" and "py_float E vv = Inr pv"
  shows "launcher_calls (snd (statistical_analysis E t meta counts j md s)) =
           [Statistical meta counts
              \<lparr>threshold = th, result_precision = p, subsampler = s, iterations = n,
               debug_seed = - 1, threads = 4, pvalue = pv\<rparr>]"
  using assms unfolding statistical_analysis_def Let_def
  by (simp add: io_bind_pure launcher_calls_Statistical launcher_calls_writes
        launcher_calls_pure split: sum.splits prod.splits option.splits)

lemma non_statistical_analysis_calls:
  assumes "subscript md ''threshold'' = Inr vt" and "py_float E vt = Inr th"
    and "subscript md ''result_precision'' = Inr vp" and "py_int E vp = Inr p"
  shows "launcher_calls (snd (non_statistical_analysis E t meta counts j md s)) =
           [Method meta counts \<lparr>threshold = th, result_precision = p, subsampler = s\<rparr>]"
  using assms unfolding non_statistical_analysis_def Let_def
  by (simp add: io_bind_pure launcher_calls_Method launcher_calls_writes
        launcher_calls_pure split: sum.splits prod.splits option.splits)

lemma process_method_dispatch:
  assumes "json_loads E body = Inr md" and "subscript md ''job_id'' = Inr j"
    and "subscript md ''file_meta'' = Inr fm" and "read_data_from_s3 E t fm False = Inr meta"
    and "subscript md ''file_counts'' = Inr fc" and "read_data_from_s3 E t fc True = Inr counts"
    and "fst (make_subsampler E md) = Inr s"
    and "subscript md ''iterations'' = Inr vi"
  shows "process_method E t body =
           (if truthy vi then statistical_analysis E t meta counts j md s
            else non_statistical_analysis E t meta counts j md s)"
proof -
  from assms(7) make_subsampler_events[of E md] have "make_subsampler E md = (Inr s, [])"
    by (cases "make_subsampler E md") simp
  then have "io_bind (make_subsampler E md) f = f s" for f :: "subsampler option \<Rightarrow> result io"
    by (simp add: io_bind_def split: prod.splits)
  with assms show ?thesis
    unfolding process_method_def by (simp add: io_bind_pure)
qed

text \<open>
  Claim C8. For a method job whose inputs are read and whose numeric fields convert,
  the integer in \<open>iterations\<close> chooses the analysis: with 0 the only launcher called
  is the non-statistical one; above 0 the only launcher called is the statistical one,
  with that number of iterations, and its \<open>pvalue\<close> is 0.05 when the job has no
  \<open>pvalue\<close> field and the float of that field otherwise.
\<close>

theorem C8_path_selection:
  assumes "json_loads E body = Inr (JObj kvs)"
    and "map_of kvs ''job_id'' = Some j"
    and "map_of kvs ''file_meta'' = Some fm" and "read_data_from_s3 E t fm False = Inr meta"
    and "map_of kvs ''file_counts'' = Some fc" and "read_data_from_s3 E t fc True = Inr counts"
    and "fst (make_subsampler E (JObj kvs)) = Inr s"
    and "map_of kvs ''iterations'' = Some (JInt n)"
    and "map_of kvs ''threshold'' = Some vt" and "py_float E vt = Inr th"
    and "map_of kvs ''result_precision'' = Some vp" and "py_int E vp = Inr p"
  shows "(n = 0 \<longrightarrow>
            launcher_calls (snd (process_method E t body)) =
              [Method meta counts \<lparr>threshold = th, result_precision = p, subsampler = s\<rparr>])
       \<and> (0 < n \<and> map_of kvs ''pvalue'' = None \<longrightarrow>
            launcher_calls (snd (process_method E t body)) =
              [Statistical meta counts
                 \<lparr>threshold = th, result_precision = p, subsampler = s, iterations = n,
                  debug_seed = - 1, threads = 4, pvalue = Finite 0.05\<rparr>])
       \<and> (\<forall>v pv. 0 < n \<and> map_of kvs ''pvalue'' = Some v \<and> py_float E v = Inr pv \<longrightarrow>
            launcher_calls (snd (process_method E t body)) =
              [Statistical meta counts
                 \<lparr>threshold = th, result_precision = p, subsampler = s, iterations = n,
                  debug_seed = - 1, threads = 4, pvalue = pv\<rparr>])"
proof -
  have d: "process_method E t body =
           (if truthy (JInt n) then statistical_analysis E t meta counts j (JObj kvs) s
            else non_statistical_analysis E t meta counts j (JObj kvs) s)"
    by (rule process_method_dispatch[where fm = fm and fc = fc]) (simp_all add: assms)
  have a: "n = 0 \<longrightarrow>
            launcher_calls (snd (process_method E t body)) =
              [Method meta counts \<lparr>threshold = th, result_precision = p, subsampler = s\<rparr>]"
    using non_statistical_analysis_calls[of "JObj kvs" vt E th vp p t meta counts j s] assms d
    by simp
  have b: "py_get (JObj kvs) ''pvalue'' (JFloat (Finite 0.05)) = Inr vv \<Longrightarrow> py_float E vv = Inr pv \<Longrightarrow>
           0 < n \<Longrightarrow>
            launcher_calls (snd (process_method E t body)) =
              [Statistical meta counts
                 \<lparr>threshold = th, result_precision = p, subsampler = s, iterations = n,
                  debug_seed = - 1, threads = 4, pvalue = pv\<rparr>]" for vv pv
    using statistical_analysis_calls[of "JObj kvs" vt E th "JInt n" n vp p vv pv t meta counts j s]
      assms d by simp
  from a b[of "JFloat (Finite 0.05)" "Finite 0.05"] b show ?thesis
    by auto
qed

text \<open>
  The hypotheses of C8 hold for the method job \<open>"7"\<close>, which has no \<open>pvalue\<close> field,
  with 0 and with 10 iterations.
\<close>

theorem C8_path_selection_witness:
  "launcher_calls (snd (process_method (method_env 0) 0 ''job'')) =
     [Method [[''bytes'']] [[''bytes'']]
        \<lparr>threshold = Finite 0.1, result_precision = 3, subsampler = None\<rparr>]
   \<and> launcher_calls (snd (process_method (method_env 10) 0 ''job'')) =
     [Statistical [[''bytes'']] [[''bytes'']]
        \<lparr>threshold = Finite 0.1, result_precision = 3, subsampler = None, iterations = 10,
         debug_seed = - 1, threads = 4, pvalue = Finite 0.05\<rparr>]"
proof -
  let ?kvs = "\<lambda>n. [(''job_id'', JStr ''7''), (''file_meta'', JStr ''meta.txt''),
           (''file_counts'', JStr ''counts.txt''), (''iterations'', JInt n),
           (''threshold'', JFloat (Finite 0.1)), (''result_precision'', JInt 3)]"
  have h: "json_loads (method_env n) ''job'' = Inr (JObj (?kvs n))" for n
    by (simp add: env_defs)
  have r: "read_data_from_s3 (method_env n) 0 k first = Inr [[''bytes'']]" for n k first
    by (simp add: env_defs read_data_from_s3_def)
  have m: "fst (make_subsampler (method_env n) (JObj (?kvs n))) = Inr None" for n
    by (simp add: make_subsampler_def io_bind_def io_pure_def)
  from C8_path_selection[where E = "method_env 0" and body = "''job''" and kvs = "?kvs 0"
      and t = 0 and j = "JStr ''7''" and fm = "JStr ''meta.txt''" and fc = "JStr ''counts.txt''"
      and meta = "[[''bytes'']]" and counts = "[[''bytes'']]" and s = None and n = 0
      and vt = "JFloat (Finite 0.1)" and th = "Finite 0.1" and vp = "JInt 3" and p = 3]
    C8_path_selection[where E = "method_env 10" and body = "''job''" and kvs = "?kvs 10"
      and t = 0 and j = "JStr ''7''" and fm = "JStr ''meta.txt''" and fc = "JStr ''counts.txt''"
      and meta = "[[''bytes'']]" and counts = "[[''bytes'']]" and s = None and n = 10
      and vt = "JFloat (Finite 0.1)" and th = "Finite 0.1" and vp = "JInt 3" and p = 3]
    h r m
  show ?thesis by simp
qed


subsection \<open>Writes before the publication\<close>

lemma last_published_unique:
  assumes "published xs = []"
    and "xs @ [Published c r] = pre @ Published c' r' # post"
  shows "pre = xs \<and> c' = c \<and> r' = r \<and> post = []"
  using assms
proof (induction xs arbitrary: pre)
  case Nil
  then show ?case by (cases pre) auto
next
  case (Cons x xs)
  show ?case
  proof (cases pre)
    case Nil
    with Cons.prems show ?thesis by auto
  next
    case (Cons p pre')
    with Cons.prems have x: "x = p" and rest: "xs @ [Published c r] = pre' @ Published c' r' # post"
      by simp_all
    from Cons.prems(1) have "published xs = []"
      by (cases x) (simp_all split: if_splits)
    from Cons.IH[OF this rest] x Cons show ?thesis by simp
  qed
qed

lemma no_published_split:
  assumes "published xs = []"
  shows "xs \<noteq> pre @ Published c r # post"
  using assms by (auto simp: published_append)

text \<open>
  Claim C9. Whenever an iteration publishes a Success Result, every storage key in its
  \<open>files\<close> mapping was written to the object store earlier in that same iteration:
  the write is among the events that precede the publication.
\<close>

theorem C9_writes_before_publish:
  assumes "new_events E st = pre @ Published c (Success j files) # post"
    and "(name, key) \<in> set files"
  shows "key \<in> set (stored_keys pre) \<and> post = []"
proof -
  consider (idle) "basic_get E (polls st) = None \<or> basic_get E (polls st) = Some []"
    | (job) body where "basic_get E (polls st) = Some body" "body \<noteq> []"
    by (cases "basic_get E (polls st)") auto
  then show ?thesis
  proof cases
    case idle
    have "published (new_events E st) = []"
      by (simp add: new_events_idle[OF idle])
    from no_published_split[OF this] assms(1) show ?thesis by blast
  next
    case job
    obtain out evs where h: "handler E (polls st) body = (out, evs)"
      by (cases "handler E (polls st) body")
    have q: "published evs = []"
      using published_quiet_handler[of E "polls st" body] h by simp
    show ?thesis
    proof (cases "body_job_id E body")
      case (Inl e')
      from no_published_split[OF published_new_events_abort[OF job Inl]] assms(1)
      show ?thesis by blast
    next
      case (Inr j')
      let ?head = "BasicGet (Some body) # evs @
          (if rebuilds E st body then [Connected (connections_made st)] else [])"
      let ?c = "if rebuilds E st body then connections_made st else connection st"
      have new: "new_events E st = ?head @ [Published ?c (reply j' out)]"
        by (simp add: new_events_job[OF job Inr h])
      have "published ?head = []"
        by (simp add: published_append q)
      from last_published_unique[OF this] new assms(1)
      have pre: "pre = ?head" and r: "Success j files = reply j' out" and post: "post = []"
        by metis+
      from r have "out = Inr (Success j files)"
        by (intro reply_Success[of j' out j files]) simp
      with h have "handler E (polls st) body = (Inr (Success j files), evs)" by simp
      from handler_Inr_stored[OF this] assms(2) have "key \<in> set (stored_keys evs)"
        by force
      with pre post show ?thesis
        by (simp add: stored_keys_append)
    qed
  qed
qed

text \<open>
  The hypotheses of C9 hold for the method job \<open>"7"\<close> with 0 iterations: its three
  files are written, then the connection is made and the Success is published.
\<close>

theorem C9_writes_before_publish_witness:
  "new_events (method_env 0) initial_state =
     [BasicGet (Some ''job''),
      Method [[''bytes'']] [[''bytes'']]
        \<lparr>threshold = Finite 0.1, result_precision = 3, subsampler = None\<rparr>,
      S3Put ''means_simple_7.txt'' (Csv [[''m'']]),
      S3Put ''significant_means_7.txt'' (Csv [[''s'']]),
      S3Put ''deconvoluted_simple_7.txt'' (Csv [[''d'']]),
      Connected 1]
     @ Published 1 (Success (JStr ''7'')
         [(''means'', ''means_simple_7.txt''),
          (''significant_means'', ''significant_means_7.txt''),
          (''deconvoluted'', ''deconvoluted_simple_7.txt'')]) # []
   \<and> ''significant_means_7.txt'' \<in> set (stored_keys
       [BasicGet (Some ''job''),
        Method [[''bytes'']] [[''bytes'']]
          \<lparr>threshold = Finite 0.1, result_precision = 3, subsampler = None\<rparr>,
        S3Put ''means_simple_7.txt'' (Csv [[''m'']]),
        S3Put ''significant_means_7.txt'' (Csv [[''s'']]),
        S3Put ''deconvoluted_simple_7.txt'' (Csv [[''d'']]),
        Connected 1])"
proof -
  have e: "new_events (method_env 0) initial_state =
     [BasicGet (Some ''job''),
      Method [[''bytes'']] [[''bytes'']]
        \<lparr>threshold = Finite 0.1, result_precision = 3, subsampler = None\<rparr>,
      S3Put ''means_simple_7.txt'' (Csv [[''m'']]),
      S3Put ''significant_means_7.txt'' (Csv [[''s'']]),
      S3Put ''deconvoluted_simple_7.txt'' (Csv [[''d'']]),
      Connected 1]
     @ Published 1 (Success (JStr ''7'')
         [(''means'', ''means_simple_7.txt''),
          (''significant_means'', ''significant_means_7.txt''),
          (''deconvoluted'', ''deconvoluted_simple_7.txt'')]) # []"
    by (simp add: env_defs eval_defs loop_defs)
  have m: "(''significant_means'', ''significant_means_7.txt'') \<in> set
         [(''means'', ''means_simple_7.txt''),
          (''significant_means'', ''significant_means_7.txt''),
          (''deconvoluted'', ''deconvoluted_simple_7.txt'')]"
    by simp
  from C9_writes_before_publish[OF e m] e show ?thesis by blast
qed

subsection \<open>The heatmap plot without its output\<close>




end
